theory Spec2Isabelle
  imports Main "HOL-Library.Signed_Division"
begin

section \<open>Data model\<close>

text \<open>The operation tags of \<^verbatim>\<open>detail::overlay::operation_type\<close>, in the order of the
  \<^verbatim>\<open>switch\<close> in \<^verbatim>\<open>op_to_int\<close>.\<close>

datatype operation_type =
    operation_none
  | operation_union
  | operation_intersection
  | operation_blocked
  | operation_continue
  | operation_opposite

record segment_identifier =
  source_index :: int
  multi_index :: int
  ring_index :: int
  segment_index :: int

text \<open>Modelled from the spec: the comparison operators of \<^verbatim>\<open>segment_identifier\<close> are
  declared in a header that is not among the sources. The data model says that segment identifiers are
  totally ordered lexicographically over the four fields source operand index, component
  index, ring index, segment index.\<close>

definition seg_less :: "segment_identifier \<Rightarrow> segment_identifier \<Rightarrow> bool" where
  "seg_less a b =
     (if source_index a \<noteq> source_index b then source_index a < source_index b
      else if multi_index a \<noteq> multi_index b then multi_index a < multi_index b
      else if ring_index a \<noteq> ring_index b then ring_index a < ring_index b
      else segment_index a < segment_index b)"

definition seg_eq :: "segment_identifier \<Rightarrow> segment_identifier \<Rightarrow> bool" where
  "seg_eq a b =
     (source_index a = source_index b \<and> multi_index a = multi_index b
      \<and> ring_index a = ring_index b \<and> segment_index a = segment_index b)"

record segment_ratio =
  numerator :: int
  denominator :: int

text \<open>Modelled from the spec: the class \<^verbatim>\<open>segment_ratio\<close> is declared in a header
  that is not among the sources. The data model gives it a numerator and a strictly positive denominator, the two
  canonical values zero and one, a comparison by cross-multiplication of numerator and other
  denominator, \<^verbatim>\<open>on_segment\<close> as the inclusive test (strictly between 0 and 1, or equal
  to 0 or 1) and \<^verbatim>\<open>in_segment\<close> as the interior-only test.\<close>

definition ratio_zero :: segment_ratio where
  "ratio_zero = \<lparr>numerator = 0, denominator = 1\<rparr>"

definition ratio_one :: segment_ratio where
  "ratio_one = \<lparr>numerator = 1, denominator = 1\<rparr>"

definition ratio_less :: "segment_ratio \<Rightarrow> segment_ratio \<Rightarrow> bool" where
  "ratio_less a b = (numerator a * denominator b < numerator b * denominator a)"

definition ratio_eq :: "segment_ratio \<Rightarrow> segment_ratio \<Rightarrow> bool" where
  "ratio_eq a b = (numerator a * denominator b = numerator b * denominator a)"

definition on_segment :: "segment_ratio \<Rightarrow> bool" where
  "on_segment r = (0 \<le> numerator r \<and> numerator r \<le> denominator r)"

definition in_segment :: "segment_ratio \<Rightarrow> bool" where
  "in_segment r = (0 < numerator r \<and> numerator r < denominator r)"

text \<open>The invariant of the data model: the denominator is strictly positive.\<close>

definition ratio_ok :: "segment_ratio \<Rightarrow> bool" where
  "ratio_ok r = (0 < denominator r)"

text \<open>A turn operation as the comparators read it: the operation tag, the identifier of its
  own segment, the identifier of the opposing operand (\<^verbatim>\<open>other_id\<close>), the position along
  its own segment (\<^verbatim>\<open>fraction\<close>), and the distance of \<^verbatim>\<open>enriched_info\<close>.\<close>

record turn_operation =
  operation :: operation_type
  seg_id :: segment_identifier
  other_id :: segment_identifier
  fraction :: segment_ratio
  enriched_distance :: int

type_synonym point = "int \<times> int"

text \<open>A turn holds its point and the array \<^verbatim>\<open>operations[2]\<close>.\<close>

record turn_info =
  turn_point :: point
  operations :: "turn_operation \<times> turn_operation"

text \<open>\<^verbatim>\<open>operations[OpId]\<close>; the template parameter is statically asserted to be below 2.\<close>

definition operation_at :: "nat \<Rightarrow> turn_info \<Rightarrow> turn_operation" where
  "operation_at OpId t = (if OpId = 0 then fst (operations t) else snd (operations t))"

section \<open>Operation priority tables\<close>

text \<open>\<^verbatim>\<open>op_to_int<N, U, I, B, C, O>\<close>: the six template arguments are the ranks of the six
  tags. The trailing \<^verbatim>\<open>return -1\<close> is reached by no value of the enumeration.\<close>

definition op_to_int ::
  "int \<Rightarrow> int \<Rightarrow> int \<Rightarrow> int \<Rightarrow> int \<Rightarrow> int \<Rightarrow> turn_operation \<Rightarrow> int" where
  "op_to_int N U I B C Opp op =
     (case operation op of
        operation_none \<Rightarrow> N
      | operation_union \<Rightarrow> U
      | operation_intersection \<Rightarrow> I
      | operation_blocked \<Rightarrow> B
      | operation_continue \<Rightarrow> C
      | operation_opposite \<Rightarrow> Opp)"

definition less_op_xxx_linear ::
  "(turn_operation \<Rightarrow> int) \<Rightarrow> turn_operation \<Rightarrow> turn_operation \<Rightarrow> bool" where
  "less_op_xxx_linear to_int left right = (to_int left < to_int right)"

definition less_op_linear_linear :: "turn_operation \<Rightarrow> turn_operation \<Rightarrow> bool" where
  "less_op_linear_linear = less_op_xxx_linear (op_to_int 0 2 3 1 4 0)"

definition less_op_linear_areal :: "turn_operation \<Rightarrow> turn_operation \<Rightarrow> bool" where
  "less_op_linear_areal left right =
     (let op_to_int_xuic = op_to_int 0 2 3 1 4 0;
          op_to_int_xiuc = op_to_int 0 3 2 1 4 0
      in if multi_index (other_id left) = multi_index (other_id right)
         then (if ring_index (other_id left) = ring_index (other_id right)
               then op_to_int_xuic left < op_to_int_xuic right
               else op_to_int_xiuc left < op_to_int_xiuc right)
         else multi_index (other_id left) < multi_index (other_id right))"

definition less_op_areal_linear :: "turn_operation \<Rightarrow> turn_operation \<Rightarrow> bool" where
  "less_op_areal_linear = less_op_xxx_linear (op_to_int 0 1 0 0 2 0)"

definition less_op_areal_areal :: "turn_operation \<Rightarrow> turn_operation \<Rightarrow> bool" where
  "less_op_areal_areal left right =
     (let op_to_int_uixc = op_to_int 0 1 2 3 4 0;
          op_to_int_iuxc = op_to_int 0 2 1 3 4 0;
          fall_through = (op_to_int_iuxc left < op_to_int_iuxc right)
      in if multi_index (other_id left) = multi_index (other_id right)
         then (if ring_index (other_id left) = ring_index (other_id right)
               then op_to_int_uixc left < op_to_int_uixc right
               else if ring_index (other_id left) = - 1
               then (if operation left = operation_union then False
                     else if operation left = operation_intersection then True
                     else fall_through)
               else if ring_index (other_id right) = - 1
               then (if operation right = operation_union then True
                     else if operation right = operation_intersection then False
                     else fall_through)
               else fall_through)
         else op_to_int_uixc left < op_to_int_uixc right)"

text \<open>The default \<^verbatim>\<open>LessOp\<close> of the sorter: \<^verbatim>\<open>less_op_xxx_linear\<close> over
  \<^verbatim>\<open>op_to_int\<close> with its default ranks 0, 1, 2, 3, 4, 0.\<close>

definition less_op_default :: "turn_operation \<Rightarrow> turn_operation \<Rightarrow> bool" where
  "less_op_default = less_op_xxx_linear (op_to_int 0 1 2 3 4 0)"

section \<open>Turn sorter\<close>

text \<open>\<^verbatim>\<open>less<OpId, LessOp>::use_fraction\<close>.\<close>

definition use_fraction ::
  "(turn_operation \<Rightarrow> turn_operation \<Rightarrow> bool) \<Rightarrow> turn_operation \<Rightarrow> turn_operation \<Rightarrow> bool" where
  "use_fraction less_op left right =
     (if ratio_eq (fraction left) (fraction right) then less_op left right
      else ratio_less (fraction left) (fraction right))"

text \<open>\<^verbatim>\<open>less<OpId, LessOp>::operator()\<close>.\<close>

definition less_turn ::
  "nat \<Rightarrow> (turn_operation \<Rightarrow> turn_operation \<Rightarrow> bool) \<Rightarrow> turn_info \<Rightarrow> turn_info \<Rightarrow> bool" where
  "less_turn OpId less_op left right =
     (let sl = seg_id (operation_at OpId left);
          sr = seg_id (operation_at OpId right)
      in seg_less sl sr
         \<or> (seg_eq sl sr \<and> use_fraction less_op (operation_at OpId left) (operation_at OpId right)))"

section \<open>Intersection points policy\<close>

type_synonym segment = "point \<times> point"

text \<open>What can end a call without a result: the failed \<^verbatim>\<open>BOOST_ASSERT\<close> on the denominator,
  the division of the least value of the calculation type by -1, and the two overflow
  exceptions of the range-checked conversion.\<close>

datatype error = assertion_failure | division_overflow | negative_overflow | positive_overflow

text \<open>Modelled from the spec: \<^verbatim>\<open>boost::numeric_cast\<close> is declared in a header that is
  not among the sources. The specification says that overflow is detected at the conversion
  boundary of a bounded integer coordinate domain; the conversion is taken as range-checked
  against the least and greatest value \<open>lo\<close> and \<open>hi\<close> of the coordinate type, raising an
  overflow error outside them and returning the value unchanged inside.\<close>

definition numeric_cast :: "int \<Rightarrow> int \<Rightarrow> int \<Rightarrow> error + int" where
  "numeric_cast lo hi v =
     (if v < lo then Inl negative_overflow
      else if hi < v then Inl positive_overflow
      else Inr v)"

text \<open>The value a signed integer type of \<open>bits\<close> bits holds for the exact result \<open>v\<close>:
  two's complement wrap-around.\<close>

definition wrap :: "nat \<Rightarrow> int \<Rightarrow> int" where
  "wrap bits v = (v + 2 ^ (bits - 1)) mod 2 ^ bits - 2 ^ (bits - 1)"

text \<open>The expression \<^verbatim>\<open>start + ratio.numerator() * delta / ratio.denominator()\<close> as the
  integer calculation type of \<open>bits\<close> bits evaluates it: the product wraps, the division
  truncates towards zero, the sum wraps. The operands are values of that type.\<close>

definition machine_coordinate :: "nat \<Rightarrow> int \<Rightarrow> segment_ratio \<Rightarrow> int \<Rightarrow> int" where
  "machine_coordinate bits start ratio delta =
     wrap bits (start + wrap bits (numerator ratio * delta) sdiv denominator ratio)"

text \<open>The same expression with the one quotient that the type cannot hold, the least value
  divided by -1, as an error.\<close>

definition weighted_coordinate :: "nat \<Rightarrow> int \<Rightarrow> segment_ratio \<Rightarrow> int \<Rightarrow> error + int" where
  "weighted_coordinate bits start ratio delta =
     (if denominator ratio = - 1 \<and> wrap bits (numerator ratio * delta) = - (2 ^ (bits - 1))
      then Inl division_overflow
      else Inr (machine_coordinate bits start ratio delta))"

text \<open>\<^verbatim>\<open>segments_intersection_points::assign\<close> over an integer calculation type of \<open>bits\<close>
  bits and a coordinate type with the range \<open>lo\<close> to \<open>hi\<close>. Each coordinate is evaluated in
  the calculation type and then converted; the first coordinate is converted and stored
  before the second is computed.\<close>

definition assign ::
  "nat \<Rightarrow> int \<Rightarrow> int \<Rightarrow> segment \<Rightarrow> segment_ratio \<Rightarrow> int \<Rightarrow> int \<Rightarrow> error + point" where
  "assign bits lo hi segment ratio dx dy =
     (if denominator ratio = 0 then Inl assertion_failure
      else
        case weighted_coordinate bits (fst (fst segment)) ratio dx of
          Inl e \<Rightarrow> Inl e
        | Inr vx \<Rightarrow>
            (case numeric_cast lo hi vx of
               Inl e \<Rightarrow> Inl e
             | Inr px \<Rightarrow>
                 (case weighted_coordinate bits (snd (fst segment)) ratio dy of
                    Inl e \<Rightarrow> Inl e
                  | Inr vy \<Rightarrow>
                      (case numeric_cast lo hi vy of
                         Inl e \<Rightarrow> Inl e
                       | Inr py \<Rightarrow> Inr (px, py)))))"

text \<open>The fields of \<^verbatim>\<open>SegmentIntersectionInfo\<close> that the policy reads.\<close>

record segment_intersection_info =
  dx_a :: int
  dy_a :: int
  dx_b :: int
  dy_b :: int
  robust_ra :: segment_ratio
  robust_rb :: segment_ratio

text \<open>A recorded fraction is the pair of the position along the first segment and the
  position along the second. An array slot that has not been assigned is \<open>None\<close>.\<close>

type_synonym fraction_type = "segment_ratio \<times> segment_ratio"

record intersection_points =
  count :: nat
  intersections :: "point option list"
  fractions :: "fraction_type option list"

text \<open>\<^verbatim>\<open>return_type()\<close>: nothing recorded, two empty slots in each array.\<close>

definition default_result :: intersection_points where
  "default_result = \<lparr>count = 0, intersections = [None, None], fractions = [None, None]\<rparr>"

text \<open>\<^verbatim>\<open>segments_crosses\<close>. Its unnamed \<^verbatim>\<open>side_info\<close> argument is not read and is left
  out; \<open>bits\<close> is the width of the calculation type, \<open>lo\<close> and \<open>hi\<close> bound the coordinate
  type of the result point.\<close>

definition segments_crosses ::
  "nat \<Rightarrow> int \<Rightarrow> int \<Rightarrow> segment_intersection_info \<Rightarrow> segment \<Rightarrow> segment
     \<Rightarrow> error + intersection_points" where
  "segments_crosses bits lo hi sinfo s1 s2 =
     (let result = default_result\<lparr>count := 1\<rparr>;
          assigned =
            (if ratio_less (robust_ra sinfo) (robust_rb sinfo)
             then assign bits lo hi s1 (robust_ra sinfo) (dx_a sinfo) (dy_a sinfo)
             else assign bits lo hi s2 (robust_rb sinfo) (dx_b sinfo) (dy_b sinfo))
      in case assigned of
           Inl e \<Rightarrow> Inl e
         | Inr p \<Rightarrow>
             Inr (result\<lparr>intersections := (intersections result)[0 := Some p],
                         fractions := (fractions result)[0 := Some (robust_ra sinfo, robust_rb sinfo)]\<rparr>))"

text \<open>The local state of \<^verbatim>\<open>segments_collinear\<close>.\<close>

record collinear_state =
  result :: intersection_points
  index :: nat
  count_a :: nat
  count_b :: nat
  on_a :: "segment_ratio option list"

text \<open>The body shared by the four guarded blocks: store the point and the fraction pair at
  \<^verbatim>\<open>index\<close>, remember the position along \<open>a\<close>, advance \<^verbatim>\<open>index\<close> and the counter of the
  segment the point came from.\<close>

definition record_point ::
  "point \<Rightarrow> fraction_type \<Rightarrow> segment_ratio \<Rightarrow> bool \<Rightarrow> collinear_state \<Rightarrow> collinear_state" where
  "record_point p f pos from_a st =
     st\<lparr>result := (result st)
            \<lparr>intersections := (intersections (result st))[index st := Some p],
             fractions := (fractions (result st))[index st := Some f]\<rparr>,
        on_a := (on_a st)[index st := Some pos],
        index := index st + 1,
        count_a := (if from_a then count_a st + 1 else count_a st),
        count_b := (if from_a then count_b st else count_b st + 1)\<rparr>"

text \<open>\<^verbatim>\<open>index == 2 && on_a[1] < on_a[0]\<close>.\<close>

definition must_swap :: "collinear_state \<Rightarrow> bool" where
  "must_swap st =
     (index st = 2 \<and>
      (case (on_a st ! 1, on_a st ! 0) of
         (Some p1, Some p0) \<Rightarrow> ratio_less p1 p0
       | _ \<Rightarrow> False))"

text \<open>\<^verbatim>\<open>std::swap\<close> of the entries 0 and 1 of an array of two.\<close>

definition swap01 :: "'a list \<Rightarrow> 'a list" where
  "swap01 xs = xs[0 := xs ! 1, 1 := xs ! 0]"

text \<open>\<^verbatim>\<open>segments_collinear\<close>.\<close>

definition segments_collinear ::
  "segment \<Rightarrow> segment \<Rightarrow> segment_ratio \<Rightarrow> segment_ratio \<Rightarrow> segment_ratio \<Rightarrow> segment_ratio
     \<Rightarrow> intersection_points" where
  "segments_collinear a b ra_from_wrt_b ra_to_wrt_b rb_from_wrt_a rb_to_wrt_a =
     (let st0 = \<lparr>result = default_result, index = 0, count_a = 0, count_b = 0,
                 on_a = [None, None]\<rparr>;
          st1 = (if on_segment ra_from_wrt_b \<and> index st0 < 2
                 then record_point (fst a) (ratio_zero, ra_from_wrt_b) ratio_zero True st0
                 else st0);
          st2 = (if in_segment rb_from_wrt_a \<and> index st1 < 2
                 then record_point (fst b) (rb_from_wrt_a, ratio_zero) rb_from_wrt_a False st1
                 else st1);
          st3 = (if on_segment ra_to_wrt_b \<and> index st2 < 2
                 then record_point (snd a) (ratio_one, ra_to_wrt_b) ratio_one True st2
                 else st2);
          st4 = (if in_segment rb_to_wrt_a \<and> index st3 < 2
                 then record_point (snd b) (rb_to_wrt_a, ratio_one) rb_to_wrt_a False st3
                 else st3);
          res = (if must_swap st4
                 then (result st4)\<lparr>intersections := swap01 (intersections (result st4)),
                                   fractions := swap01 (fractions (result st4))\<rparr>
                 else result st4)
      in res\<lparr>count := index st4\<rparr>)"

text \<open>\<^verbatim>\<open>disjoint\<close> and \<^verbatim>\<open>error\<close> both return the empty result; the message is not read.\<close>

definition disjoint :: intersection_points where
  "disjoint = default_result"

definition error_result :: "string \<Rightarrow> intersection_points" where
  "error_result msg = default_result"

text \<open>\<^verbatim>\<open>degenerate\<close>: the first point of the segment, with count 1.\<close>

definition degenerate :: "segment \<Rightarrow> bool \<Rightarrow> intersection_points" where
  "degenerate segment flag =
     (let result = default_result\<lparr>count := 1\<rparr>
      in result\<lparr>intersections := (intersections result)[0 := Some (fst segment)]\<rparr>)"

section \<open>Reference definitions following the specification\<close>

text \<open>The coordinate pair of a crossing: the start of the segment plus the ratio-weighted
  deltas, multiplication before division, as the calculation type of \<open>bits\<close> bits
  evaluates them.\<close>

definition weighted_point :: "nat \<Rightarrow> segment \<Rightarrow> segment_ratio \<Rightarrow> int \<Rightarrow> int \<Rightarrow> point" where
  "weighted_point bits s r dx dy =
     (machine_coordinate bits (fst (fst s)) r dx, machine_coordinate bits (snd (fst s)) r dy)"

definition in_range :: "int \<Rightarrow> int \<Rightarrow> point \<Rightarrow> bool" where
  "in_range lo hi p = (lo \<le> fst p \<and> fst p \<le> hi \<and> lo \<le> snd p \<and> snd p \<le> hi)"

text \<open>What \<^verbatim>\<open>segments_crosses\<close> makes of the outcome of the one assign step it runs: the
  error as it is, or the result of count 1 holding the point and the two ratios.\<close>

definition crossing_outcome ::
  "segment_intersection_info \<Rightarrow> error + point \<Rightarrow> error + intersection_points" where
  "crossing_outcome sinfo assigned =
     (case assigned of
        Inl e \<Rightarrow> Inl e
      | Inr p \<Rightarrow>
          Inr \<lparr>count = 1, intersections = [Some p, None],
               fractions = [Some (robust_ra sinfo, robust_rb sinfo), None]\<rparr>)"

text \<open>The least and greatest value of a signed integer type of \<open>bits\<close> bits.\<close>

definition type_min :: "nat \<Rightarrow> int" where
  "type_min bits = - (2 ^ (bits - 1))"

definition type_max :: "nat \<Rightarrow> int" where
  "type_max bits = 2 ^ (bits - 1) - 1"

text \<open>The four candidates of the collinear case in the fixed order of the specification, each
  with its admission test, its point and its fraction pair (position along \<open>a\<close> first).\<close>

definition collinear_candidates ::
  "segment \<Rightarrow> segment \<Rightarrow> segment_ratio \<Rightarrow> segment_ratio \<Rightarrow> segment_ratio \<Rightarrow> segment_ratio
     \<Rightarrow> (bool \<times> point \<times> fraction_type) list" where
  "collinear_candidates a b ra_from_wrt_b ra_to_wrt_b rb_from_wrt_a rb_to_wrt_a =
     [(on_segment ra_from_wrt_b, fst a, (ratio_zero, ra_from_wrt_b)),
      (in_segment rb_from_wrt_a, fst b, (rb_from_wrt_a, ratio_zero)),
      (on_segment ra_to_wrt_b, snd a, (ratio_one, ra_to_wrt_b)),
      (in_segment rb_to_wrt_a, snd b, (rb_to_wrt_a, ratio_one))]"

text \<open>A candidate is admitted when its test holds and fewer than two points are recorded:
  the admitted candidates are the first two that pass their test.\<close>

definition admitted ::
  "(bool \<times> point \<times> fraction_type) list \<Rightarrow> (point \<times> fraction_type) list" where
  "admitted cs = take 2 (map snd (filter fst cs))"

text \<open>The emitted order: two admitted points are exchanged when the second lies strictly
  before the first along \<open>a\<close>.\<close>

definition along_a :: "(point \<times> fraction_type) list \<Rightarrow> (point \<times> fraction_type) list" where
  "along_a ps =
     (case ps of
        [p, q] \<Rightarrow> (if ratio_less (fst (snd q)) (fst (snd p)) then [q, p] else [p, q])
      | _ \<Rightarrow> ps)"

text \<open>An array of two slots holding the given entries from slot 0 on.\<close>

definition slots :: "'a list \<Rightarrow> 'a option list" where
  "slots xs = map Some xs @ replicate (2 - length xs) None"

text \<open>The order properties of the specification, for a comparator \<open>lt\<close> over turns. Two
  turns are equivalent when neither is less than the other.\<close>

definition equivalent :: "(turn_info \<Rightarrow> turn_info \<Rightarrow> bool) \<Rightarrow> turn_info \<Rightarrow> turn_info \<Rightarrow> bool" where
  "equivalent lt a b = (\<not> lt a b \<and> \<not> lt b a)"

text \<open>The three keys of operand \<open>OpId\<close> are equal: segment identifier, exact ratio, and
  operation-priority rank under the rank table \<open>rank\<close>.\<close>

definition keys_equal ::
  "nat \<Rightarrow> (turn_operation \<Rightarrow> int) \<Rightarrow> turn_info \<Rightarrow> turn_info \<Rightarrow> bool" where
  "keys_equal OpId rank a b =
     (seg_eq (seg_id (operation_at OpId a)) (seg_id (operation_at OpId b))
      \<and> ratio_eq (fraction (operation_at OpId a)) (fraction (operation_at OpId b))
      \<and> rank (operation_at OpId a) = rank (operation_at OpId b))"

text \<open>Irreflexive, asymmetric, and equivalent only when the three keys are equal.\<close>

definition strict_and_consistent ::
  "nat \<Rightarrow> (turn_operation \<Rightarrow> turn_operation \<Rightarrow> bool) \<Rightarrow> (turn_operation \<Rightarrow> int)
     \<Rightarrow> turn_info \<Rightarrow> turn_info \<Rightarrow> bool" where
  "strict_and_consistent OpId less_op rank a b =
     (\<not> less_turn OpId less_op a a
      \<and> (less_turn OpId less_op a b \<longrightarrow> \<not> less_turn OpId less_op b a)
      \<and> (equivalent (less_turn OpId less_op) a b \<longrightarrow> keys_equal OpId rank a b))"

definition no_cyclic_triple ::
  "(turn_info \<Rightarrow> turn_info \<Rightarrow> bool) \<Rightarrow> turn_info \<Rightarrow> turn_info \<Rightarrow> turn_info \<Rightarrow> bool" where
  "no_cyclic_triple lt a b c = (\<not> (lt a b \<and> lt b c \<and> lt c a))"

text \<open>Transitive, with transitive equivalence.\<close>

definition transitive_at ::
  "(turn_info \<Rightarrow> turn_info \<Rightarrow> bool) \<Rightarrow> turn_info \<Rightarrow> turn_info \<Rightarrow> turn_info \<Rightarrow> bool" where
  "transitive_at lt a b c =
     ((lt a b \<and> lt b c \<longrightarrow> lt a c)
      \<and> (equivalent lt a b \<and> equivalent lt b c \<longrightarrow> equivalent lt a c))"

section \<open>Fixtures\<close>

text \<open>A turn operation with the given tag whose opposing operand lies in component \<open>m\<close>
  and ring \<open>r\<close>; every other field is zero and the fraction is the canonical zero.\<close>

definition seg_fixture :: "int \<Rightarrow> int \<Rightarrow> segment_identifier" where
  "seg_fixture m r = \<lparr>source_index = 0, multi_index = m, ring_index = r, segment_index = 0\<rparr>"

definition op_fixture :: "operation_type \<Rightarrow> int \<Rightarrow> int \<Rightarrow> turn_operation" where
  "op_fixture tag m r =
     \<lparr>operation = tag, seg_id = seg_fixture 0 0, other_id = seg_fixture m r,
      fraction = ratio_zero, enriched_distance = 0\<rparr>"

text \<open>A turn operation with tag none on segment \<open>k\<close> of its ring at position \<open>n/d\<close>.\<close>

definition op_at_position :: "int \<Rightarrow> int \<Rightarrow> int \<Rightarrow> turn_operation" where
  "op_at_position k n d =
     \<lparr>operation = operation_none,
      seg_id = \<lparr>source_index = 0, multi_index = 0, ring_index = 0, segment_index = k\<rparr>,
      other_id = seg_fixture 0 0,
      fraction = \<lparr>numerator = n, denominator = d\<rparr>, enriched_distance = 0\<rparr>"

text \<open>A turn at the origin whose two operations are both the given one.\<close>

definition turn_fixture :: "turn_operation \<Rightarrow> turn_info" where
  "turn_fixture op = \<lparr>turn_point = (0, 0), operations = (op, op)\<rparr>"

text \<open>A turn at the origin with the two given operations.\<close>

definition turn_of :: "turn_operation \<Rightarrow> turn_operation \<Rightarrow> turn_info" where
  "turn_of p q = \<lparr>turn_point = (0, 0), operations = (p, q)\<rparr>"

text \<open>The rank assignment the specification gives for the linear/linear pairing.\<close>

fun reference_rank :: "operation_type \<Rightarrow> int" where
  "reference_rank operation_none = 0"
| "reference_rank operation_union = 2"
| "reference_rank operation_intersection = 3"
| "reference_rank operation_blocked = 1"
| "reference_rank operation_continue = 4"
| "reference_rank operation_opposite = 0"

section \<open>Facts about the identifier and ratio orders\<close>

lemmas table_defs = less_op_linear_linear_def less_op_linear_areal_def less_op_areal_linear_def
  less_op_areal_areal_def less_op_xxx_linear_def op_to_int_def

lemmas fixture_defs = op_fixture_def seg_fixture_def turn_fixture_def op_at_position_def
  ratio_zero_def ratio_one_def

lemmas sorter_defs = less_turn_def use_fraction_def operation_at_def seg_less_def seg_eq_def
  ratio_less_def ratio_eq_def ratio_ok_def

lemma seg_eq_iff: "seg_eq a b = (a = b)"
  by (cases a; cases b) (auto simp add: seg_eq_def)

lemma seg_less_irrefl: "\<not> seg_less a a"
  by (simp add: seg_less_def)

lemma seg_less_trans: "seg_less a b \<Longrightarrow> seg_less b c \<Longrightarrow> seg_less a c"
  by (auto simp add: seg_less_def split: if_splits)

lemma seg_trichotomy: "seg_less a b \<or> a = b \<or> seg_less b a"
  by (cases a; cases b) (auto simp add: seg_less_def)

lemma seg_less_asym: "seg_less a b \<Longrightarrow> \<not> seg_less b a"
  by (auto simp add: seg_less_def split: if_splits)

lemma seg_less_not_eq: "seg_less a b \<Longrightarrow> \<not> seg_eq a b \<and> \<not> seg_eq b a"
  by (auto simp add: seg_less_def seg_eq_def split: if_splits)

lemma ratio_eq_sym: "ratio_eq a b = ratio_eq b a"
  by (auto simp add: ratio_eq_def)

lemma ratio_eq_refl: "ratio_eq a a"
  by (simp add: ratio_eq_def)

lemma ratio_less_not_eq: "ratio_less a b \<Longrightarrow> \<not> ratio_eq a b \<and> \<not> ratio_less b a"
  by (auto simp add: ratio_eq_def ratio_less_def)

lemma ratio_less_not_eq_rev: "ratio_less a b \<Longrightarrow> \<not> ratio_eq b a"
  by (auto simp add: ratio_eq_def ratio_less_def)

lemma ratio_trichotomy: "ratio_less a b \<or> ratio_eq a b \<or> ratio_less b a"
  by (auto simp add: ratio_eq_def ratio_less_def)

text \<open>With positive denominators the cross-multiplied comparison is the order of the
  fractions. Each chain multiplies both comparisons up to the common factor
  \<open>denominator b\<close> and cancels it.\<close>

lemma ratio_less_trans:
  assumes "ratio_ok a" "ratio_ok b" "ratio_ok c" "ratio_less a b" "ratio_less b c"
  shows "ratio_less a c"
proof -
  let ?na = "numerator a" and ?da = "denominator a"
  let ?nb = "numerator b" and ?db = "denominator b"
  let ?nc = "numerator c" and ?dc = "denominator c"
  from assms have pos: "0 < ?da" "0 < ?db" "0 < ?dc" by (simp_all add: ratio_ok_def)
  from assms have ab: "?na * ?db < ?nb * ?da" and bc: "?nb * ?dc < ?nc * ?db"
    by (simp_all add: ratio_less_def)
  have "(?na * ?dc) * ?db = (?na * ?db) * ?dc" by (simp add: ac_simps)
  also have "\<dots> < (?nb * ?da) * ?dc" using ab pos by (simp add: mult_strict_right_mono)
  also have "\<dots> = (?nb * ?dc) * ?da" by (simp add: ac_simps)
  also have "\<dots> < (?nc * ?db) * ?da" using bc pos by (simp add: mult_strict_right_mono)
  also have "\<dots> = (?nc * ?da) * ?db" by (simp add: ac_simps)
  finally have "(?na * ?dc) * ?db < (?nc * ?da) * ?db" .
  with pos have "?na * ?dc < ?nc * ?da" by (simp add: mult_less_cancel_right_pos)
  then show ?thesis by (simp add: ratio_less_def)
qed

lemma ratio_eq_less_trans:
  assumes "ratio_ok a" "ratio_ok b" "ratio_ok c" "ratio_eq a b" "ratio_less b c"
  shows "ratio_less a c"
proof -
  let ?na = "numerator a" and ?da = "denominator a"
  let ?nb = "numerator b" and ?db = "denominator b"
  let ?nc = "numerator c" and ?dc = "denominator c"
  from assms have pos: "0 < ?da" "0 < ?db" "0 < ?dc" by (simp_all add: ratio_ok_def)
  from assms have ab: "?na * ?db = ?nb * ?da" and bc: "?nb * ?dc < ?nc * ?db"
    by (simp_all add: ratio_less_def ratio_eq_def)
  have "(?na * ?dc) * ?db = (?na * ?db) * ?dc" by (simp add: ac_simps)
  also have "\<dots> = (?nb * ?da) * ?dc" using ab by simp
  also have "\<dots> = (?nb * ?dc) * ?da" by (simp add: ac_simps)
  also have "\<dots> < (?nc * ?db) * ?da" using bc pos by (simp add: mult_strict_right_mono)
  also have "\<dots> = (?nc * ?da) * ?db" by (simp add: ac_simps)
  finally have "(?na * ?dc) * ?db < (?nc * ?da) * ?db" .
  with pos have "?na * ?dc < ?nc * ?da" by (simp add: mult_less_cancel_right_pos)
  then show ?thesis by (simp add: ratio_less_def)
qed

lemma ratio_less_eq_trans:
  assumes "ratio_ok a" "ratio_ok b" "ratio_ok c" "ratio_less a b" "ratio_eq b c"
  shows "ratio_less a c"
proof -
  let ?na = "numerator a" and ?da = "denominator a"
  let ?nb = "numerator b" and ?db = "denominator b"
  let ?nc = "numerator c" and ?dc = "denominator c"
  from assms have pos: "0 < ?da" "0 < ?db" "0 < ?dc" by (simp_all add: ratio_ok_def)
  from assms have ab: "?na * ?db < ?nb * ?da" and bc: "?nb * ?dc = ?nc * ?db"
    by (simp_all add: ratio_less_def ratio_eq_def)
  have "(?na * ?dc) * ?db = (?na * ?db) * ?dc" by (simp add: ac_simps)
  also have "\<dots> < (?nb * ?da) * ?dc" using ab pos by (simp add: mult_strict_right_mono)
  also have "\<dots> = (?nb * ?dc) * ?da" by (simp add: ac_simps)
  also have "\<dots> = (?nc * ?db) * ?da" using bc by simp
  also have "\<dots> = (?nc * ?da) * ?db" by (simp add: ac_simps)
  finally have "(?na * ?dc) * ?db < (?nc * ?da) * ?db" .
  with pos have "?na * ?dc < ?nc * ?da" by (simp add: mult_less_cancel_right_pos)
  then show ?thesis by (simp add: ratio_less_def)
qed

lemma ratio_eq_trans:
  assumes "ratio_ok b" "ratio_eq a b" "ratio_eq b c"
  shows "ratio_eq a c"
proof -
  let ?na = "numerator a" and ?da = "denominator a"
  let ?nb = "numerator b" and ?db = "denominator b"
  let ?nc = "numerator c" and ?dc = "denominator c"
  from assms have pos: "?db \<noteq> 0" by (simp add: ratio_ok_def)
  from assms have ab: "?na * ?db = ?nb * ?da" and bc: "?nb * ?dc = ?nc * ?db"
    by (simp_all add: ratio_eq_def)
  have "(?na * ?dc) * ?db = (?na * ?db) * ?dc" by (simp add: ac_simps)
  also have "\<dots> = (?nb * ?da) * ?dc" using ab by simp
  also have "\<dots> = (?nb * ?dc) * ?da" by (simp add: ac_simps)
  also have "\<dots> = (?nc * ?db) * ?da" using bc by simp
  also have "\<dots> = (?nc * ?da) * ?db" by (simp add: ac_simps)
  finally have "(?na * ?dc) * ?db = (?nc * ?da) * ?db" .
  with pos have "?na * ?dc = ?nc * ?da" by simp
  then show ?thesis by (simp add: ratio_eq_def)
qed

section \<open>The sorter as a lexicographic comparison\<close>

lemma less_turn_lex:
  "less_turn i less_op l r =
     (let A = operation_at i l; B = operation_at i r
      in seg_less (seg_id A) (seg_id B)
         \<or> (seg_id A = seg_id B
            \<and> (ratio_less (fraction A) (fraction B)
               \<or> (ratio_eq (fraction A) (fraction B) \<and> less_op A B))))"
  using ratio_less_not_eq [of "fraction (operation_at i l)" "fraction (operation_at i r)"]
  by (auto simp add: less_turn_def use_fraction_def Let_def seg_eq_iff)

lemma less_turn_irrefl:
  assumes "\<And>x. \<not> less_op x x"
  shows "\<not> less_turn i less_op a a"
  using assms ratio_less_not_eq [of "fraction (operation_at i a)" "fraction (operation_at i a)"]
  by (auto simp add: less_turn_lex Let_def seg_less_irrefl ratio_eq_refl)

lemma less_turn_asym:
  assumes "\<And>x y. less_op x y \<Longrightarrow> \<not> less_op y x"
  shows "less_turn i less_op a b \<Longrightarrow> \<not> less_turn i less_op b a"
  using assms ratio_less_not_eq [of "fraction (operation_at i a)" "fraction (operation_at i b)"]
    ratio_less_not_eq [of "fraction (operation_at i b)" "fraction (operation_at i a)"]
    seg_less_asym [of "seg_id (operation_at i a)" "seg_id (operation_at i b)"]
  by (auto simp add: less_turn_lex Let_def seg_less_irrefl ratio_eq_sym)

lemma less_op_areal_areal_asym: "less_op_areal_areal x y \<Longrightarrow> \<not> less_op_areal_areal y x"
  by (cases "operation x"; cases "operation y")
     (auto simp add: less_op_areal_areal_def op_to_int_def Let_def split: if_splits)

lemma less_op_linear_areal_asym: "less_op_linear_areal x y \<Longrightarrow> \<not> less_op_linear_areal y x"
  by (cases "operation x"; cases "operation y")
     (auto simp add: less_op_linear_areal_def op_to_int_def Let_def split: if_splits)

lemma less_turn_rank_trans:
  assumes ok: "ratio_ok (fraction (operation_at i a))" "ratio_ok (fraction (operation_at i b))"
       "ratio_ok (fraction (operation_at i c))"
    and ab: "less_turn i (less_op_xxx_linear f) a b"
    and bc: "less_turn i (less_op_xxx_linear f) b c"
  shows "less_turn i (less_op_xxx_linear f) a c"
proof -
  define A where "A = operation_at i a"
  define B where "B = operation_at i b"
  define C where "C = operation_at i c"
  note ok' = ok [folded A_def B_def C_def]
  from ab have ab': "seg_less (seg_id A) (seg_id B)
         \<or> (seg_id A = seg_id B
            \<and> (ratio_less (fraction A) (fraction B)
               \<or> (ratio_eq (fraction A) (fraction B) \<and> f A < f B)))"
    by (simp add: less_turn_lex Let_def A_def B_def less_op_xxx_linear_def)
  from bc have bc': "seg_less (seg_id B) (seg_id C)
         \<or> (seg_id B = seg_id C
            \<and> (ratio_less (fraction B) (fraction C)
               \<or> (ratio_eq (fraction B) (fraction C) \<and> f B < f C)))"
    by (simp add: less_turn_lex Let_def B_def C_def less_op_xxx_linear_def)
  have "seg_less (seg_id A) (seg_id C)
         \<or> (seg_id A = seg_id C
            \<and> (ratio_less (fraction A) (fraction C)
               \<or> (ratio_eq (fraction A) (fraction C) \<and> f A < f C)))"
    using ab' bc' seg_less_trans [of "seg_id A" "seg_id B" "seg_id C"]
      ratio_less_trans [OF ok'] ratio_eq_less_trans [OF ok'] ratio_less_eq_trans [OF ok']
      ratio_eq_trans [OF ok'(2), of "fraction A" "fraction C"]
    by auto
  then show ?thesis
    by (simp add: less_turn_lex Let_def A_def C_def less_op_xxx_linear_def)
qed

lemma less_turn_rank_equiv:
  "(\<not> less_turn i (less_op_xxx_linear f) a b \<and> \<not> less_turn i (less_op_xxx_linear f) b a)
     = (seg_eq (seg_id (operation_at i a)) (seg_id (operation_at i b))
        \<and> ratio_eq (fraction (operation_at i a)) (fraction (operation_at i b))
        \<and> f (operation_at i a) = f (operation_at i b))"
proof -
  define A where "A = operation_at i a"
  define B where "B = operation_at i b"
  define sAB where "sAB = seg_less (seg_id A) (seg_id B)"
  define sBA where "sBA = seg_less (seg_id B) (seg_id A)"
  define sEQ where "sEQ = (seg_id A = seg_id B)"
  define rAB where "rAB = ratio_less (fraction A) (fraction B)"
  define rBA where "rBA = ratio_less (fraction B) (fraction A)"
  define rEQ where "rEQ = ratio_eq (fraction A) (fraction B)"
  have ab: "less_turn i (less_op_xxx_linear f) a b
              = (sAB \<or> (sEQ \<and> (rAB \<or> (rEQ \<and> f A < f B))))"
    by (simp add: less_turn_lex Let_def A_def B_def less_op_xxx_linear_def
          sAB_def sEQ_def rAB_def rEQ_def)
  have "ratio_eq (fraction B) (fraction A) = rEQ"
    unfolding rEQ_def by (rule ratio_eq_sym)
  moreover have "(seg_id B = seg_id A) = sEQ"
    unfolding sEQ_def by (rule eq_commute)
  ultimately
  have ba: "less_turn i (less_op_xxx_linear f) b a
              = (sBA \<or> (sEQ \<and> (rBA \<or> (rEQ \<and> f B < f A))))"
    by (simp add: less_turn_lex Let_def A_def B_def less_op_xxx_linear_def
          sBA_def rBA_def)
  have s3: "sAB \<or> sEQ \<or> sBA"
    unfolding sAB_def sEQ_def sBA_def by (rule seg_trichotomy)
  have s1: "sEQ \<longrightarrow> \<not> sAB \<and> \<not> sBA"
    unfolding sAB_def sEQ_def sBA_def by (simp add: seg_less_irrefl)
  have r3: "rAB \<or> rEQ \<or> rBA"
    unfolding rAB_def rEQ_def rBA_def by (rule ratio_trichotomy)
  have r1: "rEQ \<longrightarrow> \<not> rAB \<and> \<not> rBA"
    unfolding rAB_def rEQ_def rBA_def by (auto simp add: ratio_less_def ratio_eq_def)
  have f3: "f A < f B \<or> f A = f B \<or> f B < f A" by auto
  have f1: "f A = f B \<longrightarrow> \<not> f A < f B \<and> \<not> f B < f A" by auto
  have "(\<not> less_turn i (less_op_xxx_linear f) a b \<and> \<not> less_turn i (less_op_xxx_linear f) b a)
          = (sEQ \<and> rEQ \<and> f A = f B)"
    unfolding ab ba using s3 s1 r3 r1 f3 f1 by blast
  then show ?thesis
    by (simp add: seg_eq_iff A_def B_def sEQ_def rEQ_def)
qed

lemma rank_keys_trans:
  assumes "ratio_ok (fraction B)"
      and "seg_eq (seg_id A) (seg_id B) \<and> ratio_eq (fraction A) (fraction B) \<and> f A = f B"
      and "seg_eq (seg_id B) (seg_id C) \<and> ratio_eq (fraction B) (fraction C) \<and> f B = f C"
  shows "seg_eq (seg_id A) (seg_id C) \<and> ratio_eq (fraction A) (fraction C) \<and> f A = (f C :: int)"
  using assms ratio_eq_trans [of "fraction B" "fraction A" "fraction C"]
  by (simp add: seg_eq_iff)

lemma less_turn_incomparable:
  assumes "\<not> less_turn i less_op a b" and "\<not> less_turn i less_op b a"
  shows "seg_eq (seg_id (operation_at i a)) (seg_id (operation_at i b))
       \<and> ratio_eq (fraction (operation_at i a)) (fraction (operation_at i b))
       \<and> \<not> less_op (operation_at i a) (operation_at i b)
       \<and> \<not> less_op (operation_at i b) (operation_at i a)"
proof -
  define A where "A = operation_at i a"
  define B where "B = operation_at i b"
  define sAB where "sAB = seg_less (seg_id A) (seg_id B)"
  define sBA where "sBA = seg_less (seg_id B) (seg_id A)"
  define sEQ where "sEQ = (seg_id A = seg_id B)"
  define rAB where "rAB = ratio_less (fraction A) (fraction B)"
  define rBA where "rBA = ratio_less (fraction B) (fraction A)"
  define rEQ where "rEQ = ratio_eq (fraction A) (fraction B)"
  have ab: "less_turn i less_op a b = (sAB \<or> (sEQ \<and> (rAB \<or> (rEQ \<and> less_op A B))))"
    by (simp add: less_turn_lex Let_def A_def B_def sAB_def sEQ_def rAB_def rEQ_def)
  have "ratio_eq (fraction B) (fraction A) = rEQ"
    unfolding rEQ_def by (rule ratio_eq_sym)
  moreover have "(seg_id B = seg_id A) = sEQ"
    unfolding sEQ_def by (rule eq_commute)
  ultimately
  have ba: "less_turn i less_op b a = (sBA \<or> (sEQ \<and> (rBA \<or> (rEQ \<and> less_op B A))))"
    by (simp add: less_turn_lex Let_def A_def B_def sBA_def rBA_def)
  have s3: "sAB \<or> sEQ \<or> sBA"
    unfolding sAB_def sEQ_def sBA_def by (rule seg_trichotomy)
  have r3: "rAB \<or> rEQ \<or> rBA"
    unfolding rAB_def rEQ_def rBA_def by (rule ratio_trichotomy)
  from assms have "sEQ \<and> rEQ \<and> \<not> less_op A B \<and> \<not> less_op B A"
    unfolding ab ba using s3 r3 by blast
  then show ?thesis
    by (simp add: seg_eq_iff A_def B_def sEQ_def rEQ_def)
qed

lemma less_op_linear_areal_equiv:
  assumes "\<not> less_op_linear_areal x y" and "\<not> less_op_linear_areal y x"
  shows "op_to_int 0 2 3 1 4 0 x = op_to_int 0 2 3 1 4 0 y"
  using assms
  by (cases "operation x"; cases "operation y")
     (auto simp add: less_op_linear_areal_def op_to_int_def Let_def split: if_splits)

lemma less_op_areal_areal_equiv:
  assumes "\<not> less_op_areal_areal x y" and "\<not> less_op_areal_areal y x"
  shows "op_to_int 0 1 2 3 4 0 x = op_to_int 0 1 2 3 4 0 y"
  using assms
  by (cases "operation x"; cases "operation y")
     (auto simp add: less_op_areal_areal_def op_to_int_def Let_def split: if_splits)

lemma xuic_xiuc_close:
  "op_to_int 0 3 2 1 4 0 x - 1 \<le> op_to_int 0 2 3 1 4 0 x
   \<and> op_to_int 0 2 3 1 4 0 x \<le> op_to_int 0 3 2 1 4 0 x + 1"
  by (cases "operation x") (simp_all add: op_to_int_def)

lemma less_op_linear_areal_no_cycle:
  assumes "less_op_linear_areal x y" and "less_op_linear_areal y z" and "less_op_linear_areal z x"
  shows False
proof -
  define u where "u = op_to_int 0 2 3 1 4 0"
  define v where "v = op_to_int 0 3 2 1 4 0"
  have close: "v t - 1 \<le> u t \<and> u t \<le> v t + 1" for t
    unfolding u_def v_def by (rule xuic_xiuc_close)
  have form: "less_op_linear_areal s t =
      (if multi_index (other_id s) = multi_index (other_id t)
       then (if ring_index (other_id s) = ring_index (other_id t) then u s < u t else v s < v t)
       else multi_index (other_id s) < multi_index (other_id t))" for s t
    by (simp add: less_op_linear_areal_def Let_def u_def v_def)
  from assms have multi: "multi_index (other_id x) = multi_index (other_id y)"
      "multi_index (other_id y) = multi_index (other_id z)"
    unfolding form by (auto split: if_splits)
  with assms have xy: "if ring_index (other_id x) = ring_index (other_id y) then u x < u y else v x < v y"
    and yz: "if ring_index (other_id y) = ring_index (other_id z) then u y < u z else v y < v z"
    and zx: "if ring_index (other_id z) = ring_index (other_id x) then u z < u x else v z < v x"
    unfolding form by simp_all
  from xy yz zx close [of x] close [of y] close [of z] show False
    by (auto split: if_splits)
qed

lemma seg_cycle:
  assumes "seg_less a b" and "seg_less b c \<or> b = c" and "seg_less c a \<or> c = a"
  shows False
proof -
  from assms(1,2) have "seg_less a c" using seg_less_trans [of a b c] by auto
  with assms(3) have "seg_less a a" using seg_less_trans [of a c a] by auto
  then show False by (simp add: seg_less_irrefl)
qed

lemma ratio_cycle:
  assumes "ratio_ok a" "ratio_ok b" "ratio_ok c"
      and "ratio_less a b" and "ratio_less b c \<or> ratio_eq b c" and "ratio_less c a \<or> ratio_eq c a"
  shows False
proof -
  from assms(1-5) have "ratio_less a c"
    using ratio_less_trans [of a b c] ratio_less_eq_trans [of a b c] by blast
  with assms(1,3,6) have "ratio_less a a"
    using ratio_less_trans [of a c a] ratio_less_eq_trans [of a c a] by blast
  then show False by (simp add: ratio_less_def)
qed

lemma less_turn_no_cycle:
  assumes ok: "ratio_ok (fraction (operation_at i a))" "ratio_ok (fraction (operation_at i b))"
       "ratio_ok (fraction (operation_at i c))"
    and op_cycle: "\<And>x y z. less_op x y \<Longrightarrow> less_op y z \<Longrightarrow> less_op z x \<Longrightarrow> False"
    and ab: "less_turn i less_op a b"
    and bc: "less_turn i less_op b c"
    and ca: "less_turn i less_op c a"
  shows False
proof -
  define A where "A = operation_at i a"
  define B where "B = operation_at i b"
  define C where "C = operation_at i c"
  note ok' = ok [folded A_def B_def C_def]
  from ab have ab': "seg_less (seg_id A) (seg_id B)
         \<or> (seg_id A = seg_id B
            \<and> (ratio_less (fraction A) (fraction B)
               \<or> (ratio_eq (fraction A) (fraction B) \<and> less_op A B)))"
    by (simp add: less_turn_lex Let_def A_def B_def)
  from bc have bc': "seg_less (seg_id B) (seg_id C)
         \<or> (seg_id B = seg_id C
            \<and> (ratio_less (fraction B) (fraction C)
               \<or> (ratio_eq (fraction B) (fraction C) \<and> less_op B C)))"
    by (simp add: less_turn_lex Let_def B_def C_def)
  from ca have ca': "seg_less (seg_id C) (seg_id A)
         \<or> (seg_id C = seg_id A
            \<and> (ratio_less (fraction C) (fraction A)
               \<or> (ratio_eq (fraction C) (fraction A) \<and> less_op C A)))"
    by (simp add: less_turn_lex Let_def C_def A_def)
  have sab: "\<not> seg_less (seg_id A) (seg_id B)"
    using seg_cycle [of "seg_id A" "seg_id B" "seg_id C"] bc' ca' by blast
  have sbc: "\<not> seg_less (seg_id B) (seg_id C)"
    using seg_cycle [of "seg_id B" "seg_id C" "seg_id A"] ca' ab' by blast
  have sca: "\<not> seg_less (seg_id C) (seg_id A)"
    using seg_cycle [of "seg_id C" "seg_id A" "seg_id B"] ab' bc' by blast
  from ab' bc' ca' sab sbc sca have
    rab: "ratio_less (fraction A) (fraction B) \<or> (ratio_eq (fraction A) (fraction B) \<and> less_op A B)" and
    rbc: "ratio_less (fraction B) (fraction C) \<or> (ratio_eq (fraction B) (fraction C) \<and> less_op B C)" and
    rca: "ratio_less (fraction C) (fraction A) \<or> (ratio_eq (fraction C) (fraction A) \<and> less_op C A)"
    by blast+
  have no_ab: "\<not> ratio_less (fraction A) (fraction B)"
    using ratio_cycle [OF ok'(1) ok'(2) ok'(3)] rbc rca by blast
  have no_bc: "\<not> ratio_less (fraction B) (fraction C)"
    using ratio_cycle [OF ok'(2) ok'(3) ok'(1)] rca rab by blast
  have no_ca: "\<not> ratio_less (fraction C) (fraction A)"
    using ratio_cycle [OF ok'(3) ok'(1) ok'(2)] rab rbc by blast
  from rab rbc rca no_ab no_bc no_ca have "less_op A B" "less_op B C" "less_op C A"
    by blast+
  then show False by (rule op_cycle)
qed

section \<open>Sorter: order properties\<close>

text \<open>C1, as stated, fails. Under the areal/areal comparator three turns on the same segment
  at the same position form a cycle: union and intersection, both against the outer ring -1
  of component 0, and a none against ring 0 of the same component. Under the linear/areal
  comparator union in ring 1 is less than intersection in ring 1, which is less than union in
  ring 2, but union in ring 1 is not less than union in ring 2.\<close>

theorem less_turn_cyclic_counterexample:
  "less_turn 0 less_op_areal_areal
     (turn_fixture (op_fixture operation_union 0 (- 1)))
     (turn_fixture (op_fixture operation_intersection 0 (- 1)))
   \<and> less_turn 0 less_op_areal_areal
     (turn_fixture (op_fixture operation_intersection 0 (- 1)))
     (turn_fixture (op_fixture operation_none 0 0))
   \<and> less_turn 0 less_op_areal_areal
     (turn_fixture (op_fixture operation_none 0 0))
     (turn_fixture (op_fixture operation_union 0 (- 1)))
   \<and> less_turn 0 less_op_linear_areal
     (turn_fixture (op_fixture operation_union 0 1))
     (turn_fixture (op_fixture operation_intersection 0 1))
   \<and> less_turn 0 less_op_linear_areal
     (turn_fixture (op_fixture operation_intersection 0 1))
     (turn_fixture (op_fixture operation_union 0 2))
   \<and> \<not> less_turn 0 less_op_linear_areal
     (turn_fixture (op_fixture operation_union 0 1))
     (turn_fixture (op_fixture operation_union 0 2))"
  by (simp add: sorter_defs table_defs fixture_defs)

text \<open>C1, amended: for every category pairing and every operand choice the sorter is
  irreflexive and asymmetric, and two turns compare as equivalent only when all three keys
  (segment identifier, exact ratio, operation-priority rank) are equal. Over turns whose
  fractions have a positive denominator, no three turns form a cyclic triple under the
  linear/linear, areal/linear and linear/areal pairings, and under the linear/linear and
  areal/linear pairings the sorter is a strict weak order: transitive, with transitive
  equivalence, two turns being equivalent exactly when the three keys are equal. Transitivity
  is not claimed for linear/areal, and neither transitivity nor the absence of cyclic triples
  for areal/areal.\<close>

theorem less_turn_order_properties:
  "strict_and_consistent OpId less_op_linear_linear (op_to_int 0 2 3 1 4 0) a b
   \<and> strict_and_consistent OpId less_op_areal_linear (op_to_int 0 1 0 0 2 0) a b
   \<and> strict_and_consistent OpId less_op_linear_areal (op_to_int 0 2 3 1 4 0) a b
   \<and> strict_and_consistent OpId less_op_areal_areal (op_to_int 0 1 2 3 4 0) a b
   \<and> (keys_equal OpId (op_to_int 0 2 3 1 4 0) a b
        \<longrightarrow> equivalent (less_turn OpId less_op_linear_linear) a b)
   \<and> (keys_equal OpId (op_to_int 0 1 0 0 2 0) a b
        \<longrightarrow> equivalent (less_turn OpId less_op_areal_linear) a b)
   \<and> (ratio_ok (fraction (operation_at OpId a)) \<and> ratio_ok (fraction (operation_at OpId b))
        \<and> ratio_ok (fraction (operation_at OpId c))
       \<longrightarrow> no_cyclic_triple (less_turn OpId less_op_linear_linear) a b c
         \<and> no_cyclic_triple (less_turn OpId less_op_areal_linear) a b c
         \<and> no_cyclic_triple (less_turn OpId less_op_linear_areal) a b c
         \<and> transitive_at (less_turn OpId less_op_linear_linear) a b c
         \<and> transitive_at (less_turn OpId less_op_areal_linear) a b c)"
proof -
  have rank_strict: "strict_and_consistent OpId (less_op_xxx_linear f) f a b" for f
    unfolding strict_and_consistent_def equivalent_def keys_equal_def
    using less_turn_irrefl [of "less_op_xxx_linear f" OpId a]
      less_turn_asym [of "less_op_xxx_linear f" OpId a b]
      less_turn_rank_equiv [of OpId f a b]
    by (simp add: less_op_xxx_linear_def)
  have la: "strict_and_consistent OpId less_op_linear_areal (op_to_int 0 2 3 1 4 0) a b"
    unfolding strict_and_consistent_def equivalent_def keys_equal_def
    using less_turn_irrefl [of less_op_linear_areal OpId a]
      less_turn_asym [of less_op_linear_areal OpId a b]
      less_turn_incomparable [of OpId less_op_linear_areal a b]
      less_op_linear_areal_asym
      less_op_linear_areal_equiv [of "operation_at OpId a" "operation_at OpId b"]
    by blast
  have aa: "strict_and_consistent OpId less_op_areal_areal (op_to_int 0 1 2 3 4 0) a b"
    unfolding strict_and_consistent_def equivalent_def keys_equal_def
    using less_turn_irrefl [of less_op_areal_areal OpId a]
      less_turn_asym [of less_op_areal_areal OpId a b]
      less_turn_incomparable [of OpId less_op_areal_areal a b]
      less_op_areal_areal_asym
      less_op_areal_areal_equiv [of "operation_at OpId a" "operation_at OpId b"]
    by blast
  have rank_conv: "keys_equal OpId f a b \<longrightarrow> equivalent (less_turn OpId (less_op_xxx_linear f)) a b"
    for f
    unfolding equivalent_def keys_equal_def
    using less_turn_rank_equiv [of OpId f a b] by blast
  have rank_cycle: "no_cyclic_triple (less_turn OpId (less_op_xxx_linear f)) a b c"
    if "ratio_ok (fraction (operation_at OpId a))" "ratio_ok (fraction (operation_at OpId b))"
       "ratio_ok (fraction (operation_at OpId c))" for f
    unfolding no_cyclic_triple_def
    using less_turn_no_cycle [OF that, of "less_op_xxx_linear f"]
    by (auto simp add: less_op_xxx_linear_def)
  have la_cycle: "no_cyclic_triple (less_turn OpId less_op_linear_areal) a b c"
    if "ratio_ok (fraction (operation_at OpId a))" "ratio_ok (fraction (operation_at OpId b))"
       "ratio_ok (fraction (operation_at OpId c))"
    unfolding no_cyclic_triple_def
    using less_turn_no_cycle [OF that, of less_op_linear_areal] less_op_linear_areal_no_cycle
    by blast
  have rank_trans: "transitive_at (less_turn OpId (less_op_xxx_linear f)) a b c"
    if ok: "ratio_ok (fraction (operation_at OpId a))" "ratio_ok (fraction (operation_at OpId b))"
       "ratio_ok (fraction (operation_at OpId c))" for f
    unfolding transitive_at_def equivalent_def
    using less_turn_rank_trans [OF ok, of f]
      less_turn_rank_equiv [of OpId f a b] less_turn_rank_equiv [of OpId f b c]
      less_turn_rank_equiv [of OpId f a c]
      rank_keys_trans [OF ok(2), of "operation_at OpId a" f "operation_at OpId c"]
    by blast
  show ?thesis
    unfolding less_op_linear_linear_def less_op_areal_linear_def
    using rank_strict [of "op_to_int 0 2 3 1 4 0"] rank_strict [of "op_to_int 0 1 0 0 2 0"]
      la aa rank_conv [of "op_to_int 0 2 3 1 4 0"] rank_conv [of "op_to_int 0 1 0 0 2 0"]
      rank_cycle [of "op_to_int 0 2 3 1 4 0"] rank_cycle [of "op_to_int 0 1 0 0 2 0"]
      la_cycle rank_trans [of "op_to_int 0 2 3 1 4 0"] rank_trans [of "op_to_int 0 1 0 0 2 0"]
    by blast
qed

text \<open>The witness: at operand 0 none, blocked and continue are a chain under linear/linear; at
  operand 1 none and opposite are equivalent under areal/linear and have equal keys; under
  linear/areal the triple of the counterexample does not close to a cycle; under areal/areal
  union against the outer ring is less than intersection against the outer ring and not the
  other way round.\<close>

theorem less_turn_order_properties_witness:
  "ratio_ok (fraction (operation_at 0 (turn_fixture (op_fixture operation_none 0 0))))
   \<and> less_turn 0 less_op_linear_linear
       (turn_fixture (op_fixture operation_none 0 0)) (turn_fixture (op_fixture operation_continue 0 0))
   \<and> keys_equal 1 (op_to_int 0 1 0 0 2 0)
       (turn_fixture (op_fixture operation_none 0 0)) (turn_fixture (op_fixture operation_opposite 0 0))
   \<and> \<not> less_turn 0 less_op_linear_areal
       (turn_fixture (op_fixture operation_union 0 2)) (turn_fixture (op_fixture operation_union 0 1))
   \<and> \<not> less_turn 0 less_op_areal_areal
       (turn_fixture (op_fixture operation_intersection 0 (- 1)))
       (turn_fixture (op_fixture operation_union 0 (- 1)))"
proof -
  have ok: "ratio_ok (fraction (operation_at i (turn_fixture (op_fixture tag m r))))" for i tag m r
    by (simp add: sorter_defs fixture_defs)
  note unfold = strict_and_consistent_def equivalent_def no_cyclic_triple_def transitive_at_def
  note w1 = less_turn_order_properties
      [where OpId = 0 and a = "turn_fixture (op_fixture operation_none 0 0)"
         and b = "turn_fixture (op_fixture operation_blocked 0 0)"
         and c = "turn_fixture (op_fixture operation_continue 0 0)", unfolded unfold]
  note w2 = less_turn_order_properties
      [where OpId = 1 and a = "turn_fixture (op_fixture operation_none 0 0)"
         and b = "turn_fixture (op_fixture operation_opposite 0 0)"
         and c = "turn_fixture (op_fixture operation_none 0 0)", unfolded unfold]
  note w3 = less_turn_order_properties
      [where OpId = 0 and a = "turn_fixture (op_fixture operation_union 0 1)"
         and b = "turn_fixture (op_fixture operation_intersection 0 1)"
         and c = "turn_fixture (op_fixture operation_union 0 2)", unfolded unfold]
  note w4 = less_turn_order_properties
      [where OpId = 0 and a = "turn_fixture (op_fixture operation_union 0 (- 1))"
         and b = "turn_fixture (op_fixture operation_intersection 0 (- 1))"
         and c = "turn_fixture (op_fixture operation_none 0 0)", unfolded unfold]
  have chain: "less_turn 0 less_op_linear_linear
       (turn_fixture (op_fixture operation_none 0 0)) (turn_fixture (op_fixture operation_blocked 0 0))"
      "less_turn 0 less_op_linear_linear
       (turn_fixture (op_fixture operation_blocked 0 0)) (turn_fixture (op_fixture operation_continue 0 0))"
    by (simp_all add: sorter_defs table_defs fixture_defs)
  have eqv: "\<not> less_turn 1 less_op_areal_linear
       (turn_fixture (op_fixture operation_none 0 0)) (turn_fixture (op_fixture operation_opposite 0 0))"
      "\<not> less_turn 1 less_op_areal_linear
       (turn_fixture (op_fixture operation_opposite 0 0)) (turn_fixture (op_fixture operation_none 0 0))"
    by (simp_all add: sorter_defs table_defs fixture_defs)
  have la: "less_turn 0 less_op_linear_areal
       (turn_fixture (op_fixture operation_union 0 1)) (turn_fixture (op_fixture operation_intersection 0 1))"
      "less_turn 0 less_op_linear_areal
       (turn_fixture (op_fixture operation_intersection 0 1)) (turn_fixture (op_fixture operation_union 0 2))"
    by (simp_all add: sorter_defs table_defs fixture_defs)
  have aa: "less_turn 0 less_op_areal_areal
       (turn_fixture (op_fixture operation_union 0 (- 1)))
       (turn_fixture (op_fixture operation_intersection 0 (- 1)))"
    by (simp add: sorter_defs table_defs fixture_defs)
  from w1 chain ok have 1: "less_turn 0 less_op_linear_linear
       (turn_fixture (op_fixture operation_none 0 0)) (turn_fixture (op_fixture operation_continue 0 0))"
    by blast
  from w2 eqv have 2: "keys_equal 1 (op_to_int 0 1 0 0 2 0)
       (turn_fixture (op_fixture operation_none 0 0)) (turn_fixture (op_fixture operation_opposite 0 0))"
    by blast
  from w3 la ok have 3: "\<not> less_turn 0 less_op_linear_areal
       (turn_fixture (op_fixture operation_union 0 2)) (turn_fixture (op_fixture operation_union 0 1))"
    by blast
  from w4 aa have 4: "\<not> less_turn 0 less_op_areal_areal
       (turn_fixture (op_fixture operation_intersection 0 (- 1)))
       (turn_fixture (op_fixture operation_union 0 (- 1)))"
    by blast
  from ok [of 0 operation_none 0 0] 1 2 3 4 show ?thesis by blast
qed

section \<open>Areal/areal priorities\<close>

text \<open>C2, as stated, fails: with different multi-index the areal/areal comparator does not
  compare the multi-index values. Intersection in component 0 is not less than union in
  component 1, and with the components exchanged union is still less than intersection.\<close>

theorem less_op_areal_areal_multi_counterexample:
  "\<not> less_op_areal_areal (op_fixture operation_intersection 0 0) (op_fixture operation_union 1 0)
   \<and> less_op_areal_areal (op_fixture operation_union 0 0) (op_fixture operation_intersection 1 0)
   \<and> less_op_areal_areal (op_fixture operation_union 1 0) (op_fixture operation_intersection 0 0)"
  by (simp add: table_defs fixture_defs)

text \<open>C2, amended: in the areal/areal comparator the multi-index of the opposing operand is
  tested for equality first; whenever the two multi-index values differ, the result is
  decided by the operation tags alone, through the ranks none 0, union 1, intersection 2,
  blocked 3, continue 4, opposite 0, independent of the multi-index and ring-index values.\<close>

theorem less_op_areal_areal_multi_differs:
  assumes "multi_index (other_id left) \<noteq> multi_index (other_id right)"
  shows "less_op_areal_areal left right
           = (op_to_int 0 1 2 3 4 0 left < op_to_int 0 1 2 3 4 0 right)"
  using assms by (simp add: less_op_areal_areal_def Let_def)

theorem less_op_areal_areal_multi_differs_witness:
  "multi_index (other_id (op_fixture operation_union 1 0))
     \<noteq> multi_index (other_id (op_fixture operation_intersection 0 5))
   \<and> less_op_areal_areal (op_fixture operation_union 1 0) (op_fixture operation_intersection 0 5)
   \<and> op_to_int 0 1 2 3 4 0 (op_fixture operation_union 1 0)
        < op_to_int 0 1 2 3 4 0 (op_fixture operation_intersection 0 5)"
proof -
  have h: "multi_index (other_id (op_fixture operation_union 1 0))
     \<noteq> multi_index (other_id (op_fixture operation_intersection 0 5))"
    by (simp add: fixture_defs)
  have r: "op_to_int 0 1 2 3 4 0 (op_fixture operation_union 1 0)
        < op_to_int 0 1 2 3 4 0 (op_fixture operation_intersection 0 5)"
    by (simp add: op_to_int_def fixture_defs)
  from less_op_areal_areal_multi_differs [OF h] h r show ?thesis by simp
qed

section \<open>The outer-ring sentinel\<close>

text \<open>C3, as stated, fails for linear/areal: that comparator has no sentinel exception. A union
  whose other ring is the sentinel is less than a continue in ring 0 of the same component,
  and an intersection whose other ring is the sentinel is not less than a none.\<close>

theorem less_op_linear_areal_sentinel_counterexample:
  "less_op_linear_areal (op_fixture operation_union 0 (- 1)) (op_fixture operation_continue 0 0)
   \<and> \<not> less_op_linear_areal (op_fixture operation_intersection 0 (- 1)) (op_fixture operation_none 0 0)"
  by (simp add: table_defs fixture_defs)

text \<open>C3, amended: the outer-ring-sentinel exception applies in the areal/areal comparison only.
  When the two operations have equal other-id multi-index and different other-id ring-index:
  a left operand with ring-index -1 and operation union is never the lesser, with operation
  intersection it is always the lesser; a right operand with ring-index -1 and operation union
  makes the left the lesser, with operation intersection the left is not the lesser. The
  linear/areal comparison has no such exception: there the result is the comparison of the ranks
  none 0, union 3, intersection 2, blocked 1, continue 4, opposite 0.\<close>

theorem sentinel_exception_areal_areal_only:
  assumes "multi_index (other_id left) = multi_index (other_id right)"
      and "ring_index (other_id left) \<noteq> ring_index (other_id right)"
  shows "(ring_index (other_id left) = - 1 \<and> operation left = operation_union
            \<longrightarrow> \<not> less_op_areal_areal left right)
       \<and> (ring_index (other_id left) = - 1 \<and> operation left = operation_intersection
            \<longrightarrow> less_op_areal_areal left right)
       \<and> (ring_index (other_id right) = - 1 \<and> operation right = operation_union
            \<longrightarrow> less_op_areal_areal left right)
       \<and> (ring_index (other_id right) = - 1 \<and> operation right = operation_intersection
            \<longrightarrow> \<not> less_op_areal_areal left right)
       \<and> less_op_linear_areal left right
           = (op_to_int 0 3 2 1 4 0 left < op_to_int 0 3 2 1 4 0 right)"
  using assms by (auto simp add: less_op_areal_areal_def less_op_linear_areal_def Let_def)

theorem sentinel_exception_areal_areal_only_witness:
  "\<not> less_op_areal_areal (op_fixture operation_union 0 (- 1)) (op_fixture operation_continue 0 0)
   \<and> less_op_areal_areal (op_fixture operation_intersection 0 (- 1)) (op_fixture operation_none 0 0)
   \<and> less_op_areal_areal (op_fixture operation_continue 0 0) (op_fixture operation_union 0 (- 1))
   \<and> \<not> less_op_areal_areal (op_fixture operation_none 0 0) (op_fixture operation_intersection 0 (- 1))"
proof -
  have h: "multi_index (other_id (op_fixture s 0 (- 1))) = multi_index (other_id (op_fixture t 0 0))"
          "ring_index (other_id (op_fixture s 0 (- 1))) \<noteq> ring_index (other_id (op_fixture t 0 0))"
          "multi_index (other_id (op_fixture t 0 0)) = multi_index (other_id (op_fixture s 0 (- 1)))"
          "ring_index (other_id (op_fixture t 0 0)) \<noteq> ring_index (other_id (op_fixture s 0 (- 1)))"
    for s t
    by (simp_all add: fixture_defs)
  have f: "ring_index (other_id (op_fixture s 0 (- 1))) = - 1" "operation (op_fixture s m r) = s"
    for s m r
    by (simp_all add: fixture_defs)
  from sentinel_exception_areal_areal_only [OF h(1) h(2), of operation_union operation_continue] f
  have 1: "\<not> less_op_areal_areal (op_fixture operation_union 0 (- 1)) (op_fixture operation_continue 0 0)"
    by blast
  from sentinel_exception_areal_areal_only [OF h(1) h(2), of operation_intersection operation_none] f
  have 2: "less_op_areal_areal (op_fixture operation_intersection 0 (- 1)) (op_fixture operation_none 0 0)"
    by blast
  from sentinel_exception_areal_areal_only [OF h(3) h(4), of operation_continue operation_union] f
  have 3: "less_op_areal_areal (op_fixture operation_continue 0 0) (op_fixture operation_union 0 (- 1))"
    by blast
  from sentinel_exception_areal_areal_only [OF h(3) h(4), of operation_none operation_intersection] f
  have 4: "\<not> less_op_areal_areal (op_fixture operation_none 0 0) (op_fixture operation_intersection 0 (- 1))"
    by blast
  from 1 2 3 4 show ?thesis by blast
qed

section \<open>Linear/areal and areal/linear priorities\<close>

text \<open>C7, as stated, fails: in the linear/areal comparator the choice is not decided by whether
  multi-index and ring-index are both equal. Two pairs with the same tags (intersection, union)
  and the same ring, both with different multi-index, get different results, because the
  multi-index values themselves are compared; the second result also differs from what the
  different-ring table (intersection 2 below union 3) gives.\<close>

theorem less_op_linear_areal_selection_counterexample:
  "less_op_linear_areal (op_fixture operation_intersection 0 0) (op_fixture operation_union 1 0)
   \<and> \<not> less_op_linear_areal (op_fixture operation_intersection 1 0) (op_fixture operation_union 0 0)
   \<and> op_to_int 0 3 2 1 4 0 (op_fixture operation_intersection 1 0)
       < op_to_int 0 3 2 1 4 0 (op_fixture operation_union 0 0)"
  by (simp add: table_defs fixture_defs)

text \<open>C7, amended: the linear/areal comparator uses the ranks none 0, union 2, intersection 3,
  blocked 1, continue 4, opposite 0 when other-id multi-index and ring-index are both equal
  (union sorts before intersection), the mirrored ranks none 0, union 3, intersection 2,
  blocked 1, continue 4, opposite 0 when the multi-index is equal and the ring-index differs,
  and compares the multi-index values, ascending and independent of the tags, when the
  multi-index differs. The areal/linear comparator makes no selection: it always uses the
  single rank table none 0, union 1, intersection 0, blocked 0, continue 2, opposite 0,
  in which intersection sorts before union, and never reads the other-id.\<close>

theorem linear_areal_and_areal_linear_tables:
  "(multi_index (other_id left) = multi_index (other_id right)
      \<and> ring_index (other_id left) = ring_index (other_id right)
     \<longrightarrow> less_op_linear_areal left right
           = (op_to_int 0 2 3 1 4 0 left < op_to_int 0 2 3 1 4 0 right))
   \<and> (multi_index (other_id left) = multi_index (other_id right)
      \<and> ring_index (other_id left) \<noteq> ring_index (other_id right)
     \<longrightarrow> less_op_linear_areal left right
           = (op_to_int 0 3 2 1 4 0 left < op_to_int 0 3 2 1 4 0 right))
   \<and> (multi_index (other_id left) \<noteq> multi_index (other_id right)
     \<longrightarrow> less_op_linear_areal left right
           = (multi_index (other_id left) < multi_index (other_id right)))
   \<and> less_op_areal_linear left right
       = (op_to_int 0 1 0 0 2 0 left < op_to_int 0 1 0 0 2 0 right)
   \<and> (operation left = operation_union \<and> operation right = operation_intersection
      \<and> multi_index (other_id left) = multi_index (other_id right)
      \<and> ring_index (other_id left) = ring_index (other_id right)
     \<longrightarrow> less_op_linear_areal left right \<and> \<not> less_op_linear_areal right left)
   \<and> (operation left = operation_intersection \<and> operation right = operation_union
     \<longrightarrow> less_op_areal_linear left right \<and> \<not> less_op_areal_linear right left)"
  by (simp add: table_defs Let_def)

theorem linear_areal_and_areal_linear_tables_witness:
  "less_op_linear_areal (op_fixture operation_union 0 0) (op_fixture operation_intersection 0 0)
   \<and> \<not> less_op_linear_areal (op_fixture operation_intersection 0 0) (op_fixture operation_union 0 0)
   \<and> \<not> less_op_linear_areal (op_fixture operation_union 0 0) (op_fixture operation_intersection 0 1)
   \<and> less_op_linear_areal (op_fixture operation_union 0 0) (op_fixture operation_intersection 1 0)
   \<and> less_op_areal_linear (op_fixture operation_intersection 0 0) (op_fixture operation_union 0 0)
   \<and> \<not> less_op_areal_linear (op_fixture operation_union 0 0) (op_fixture operation_intersection 0 0)"
  using
    linear_areal_and_areal_linear_tables
      [of "op_fixture operation_union 0 0" "op_fixture operation_intersection 0 0"]
    linear_areal_and_areal_linear_tables
      [of "op_fixture operation_union 0 0" "op_fixture operation_intersection 0 1"]
    linear_areal_and_areal_linear_tables
      [of "op_fixture operation_union 0 0" "op_fixture operation_intersection 1 0"]
    linear_areal_and_areal_linear_tables
      [of "op_fixture operation_intersection 0 0" "op_fixture operation_union 0 0"]
  by (simp add: op_to_int_def fixture_defs)

section \<open>Linear/linear priorities\<close>

text \<open>C8, as stated, fails: the claim orders intersection before opposite and lets union share
  the lowest rank with opposite. Under the comparator intersection is not less than opposite,
  opposite is less than intersection, and opposite is less than union.\<close>

theorem less_op_linear_linear_chain_counterexample:
  "\<not> less_op_linear_linear (op_fixture operation_intersection 0 0) (op_fixture operation_opposite 0 0)
   \<and> less_op_linear_linear (op_fixture operation_opposite 0 0) (op_fixture operation_intersection 0 0)
   \<and> less_op_linear_linear (op_fixture operation_opposite 0 0) (op_fixture operation_union 0 0)"
  by (simp add: less_op_linear_linear_def less_op_xxx_linear_def op_to_int_def op_fixture_def)

text \<open>C8, amended: the linear/linear comparator says left is less than right exactly when the
  reference rank (none 0, union 2, intersection 3, blocked 1, continue 4, opposite 0) of left's
  tag is strictly below that of right's tag; the resulting order is
  none = opposite, then blocked, union, intersection, continue, with none and opposite
  sharing the lowest rank.\<close>

theorem less_op_linear_linear_rank:
  "less_op_linear_linear left right
     = (reference_rank (operation left) < reference_rank (operation right))
   \<and> reference_rank operation_none = reference_rank operation_opposite
   \<and> reference_rank operation_opposite < reference_rank operation_blocked
   \<and> reference_rank operation_blocked < reference_rank operation_union
   \<and> reference_rank operation_union < reference_rank operation_intersection
   \<and> reference_rank operation_intersection < reference_rank operation_continue"
  by (cases "operation left"; cases "operation right")
     (simp_all add: less_op_linear_linear_def less_op_xxx_linear_def op_to_int_def)

section \<open>Sorter: key sequence\<close>

lemma operation_at_nth:
  "OpId < 2 \<Longrightarrow> operation_at OpId t = [fst (operations t), snd (operations t)] ! OpId"
  by (cases "OpId = 0") (auto simp add: operation_at_def less_2_cases_iff)

text \<open>C4: for every pair of turns and every operand index 0 or 1, the sorter reads the operation
  of that index in each turn and compares by this key sequence: first the segment identifiers
  of that operand, ascending; when they are equal, that operand's fractions, ascending; and
  only when the fractions are equal too, the operation-priority comparator applied to the two
  operations. The three cases of each key are exhaustive, and no other field influences the
  result: two turns that carry the same operation at the operand index compare the same,
  whatever their point and their other operation hold.\<close>

theorem less_turn_key_sequence:
  assumes "OpId < 2"
  shows
  "(let lop = [fst (operations left), snd (operations left)] ! OpId;
        rop = [fst (operations right), snd (operations right)] ! OpId;
        sl = seg_id lop; sr = seg_id rop; fl = fraction lop; fr = fraction rop
    in (seg_less sl sr \<longrightarrow> less_turn OpId less_op left right)
     \<and> (seg_less sr sl \<longrightarrow> \<not> less_turn OpId less_op left right)
     \<and> (seg_eq sl sr \<and> ratio_less fl fr \<longrightarrow> less_turn OpId less_op left right)
     \<and> (seg_eq sl sr \<and> ratio_less fr fl \<longrightarrow> \<not> less_turn OpId less_op left right)
     \<and> (seg_eq sl sr \<and> ratio_eq fl fr
          \<longrightarrow> less_turn OpId less_op left right = less_op lop rop)
     \<and> (seg_less sl sr \<or> seg_eq sl sr \<or> seg_less sr sl)
     \<and> (ratio_less fl fr \<or> ratio_eq fl fr \<or> ratio_less fr fl)
     \<and> ([fst (operations left'), snd (operations left')] ! OpId = lop
          \<and> [fst (operations right'), snd (operations right')] ! OpId = rop
          \<longrightarrow> less_turn OpId less_op left' right' = less_turn OpId less_op left right))"
proof -
  define lop where "lop = [fst (operations left), snd (operations left)] ! OpId"
  define rop where "rop = [fst (operations right), snd (operations right)] ! OpId"
  have l: "operation_at OpId left = lop" and r: "operation_at OpId right = rop"
    using assms by (simp_all add: operation_at_nth lop_def rop_def)
  have 1: "seg_less (seg_id lop) (seg_id rop) \<longrightarrow> less_turn OpId less_op left right"
    by (simp add: less_turn_def Let_def l r)
  have 2: "seg_less (seg_id rop) (seg_id lop) \<longrightarrow> \<not> less_turn OpId less_op left right"
    using seg_less_asym [of "seg_id rop" "seg_id lop"] seg_less_not_eq [of "seg_id rop" "seg_id lop"]
    by (auto simp add: less_turn_def Let_def l r)
  have 3: "seg_eq (seg_id lop) (seg_id rop) \<and> ratio_less (fraction lop) (fraction rop)
             \<longrightarrow> less_turn OpId less_op left right"
    using ratio_less_not_eq [of "fraction lop" "fraction rop"]
    by (auto simp add: less_turn_def use_fraction_def Let_def l r)
  have 4: "seg_eq (seg_id lop) (seg_id rop) \<and> ratio_less (fraction rop) (fraction lop)
             \<longrightarrow> \<not> less_turn OpId less_op left right"
    using ratio_less_not_eq [of "fraction rop" "fraction lop"]
      ratio_less_not_eq_rev [of "fraction rop" "fraction lop"]
      seg_less_not_eq [of "seg_id lop" "seg_id rop"]
    by (auto simp add: less_turn_def use_fraction_def Let_def l r)
  have 5: "seg_eq (seg_id lop) (seg_id rop) \<and> ratio_eq (fraction lop) (fraction rop)
             \<longrightarrow> less_turn OpId less_op left right = less_op lop rop"
    using seg_less_not_eq [of "seg_id lop" "seg_id rop"]
    by (auto simp add: less_turn_def use_fraction_def Let_def l r)
  have 6: "seg_less (seg_id lop) (seg_id rop) \<or> seg_eq (seg_id lop) (seg_id rop)
             \<or> seg_less (seg_id rop) (seg_id lop)"
    using seg_trichotomy [of "seg_id lop" "seg_id rop"] by (simp add: seg_eq_iff)
  have 7: "ratio_less (fraction lop) (fraction rop) \<or> ratio_eq (fraction lop) (fraction rop)
             \<or> ratio_less (fraction rop) (fraction lop)"
    by (rule ratio_trichotomy)
  have 8: "[fst (operations left'), snd (operations left')] ! OpId = lop
          \<and> [fst (operations right'), snd (operations right')] ! OpId = rop
          \<longrightarrow> less_turn OpId less_op left' right' = less_turn OpId less_op left right"
    using assms operation_at_nth [of OpId left'] operation_at_nth [of OpId right']
    by (auto simp add: less_turn_def Let_def l r)
  from 1 2 3 4 5 6 7 8 show ?thesis
    unfolding Let_def lop_def rop_def by blast
qed

text \<open>The witness uses turns whose two operations differ, so that the operand index decides:
  the same pair of turns is in order at operand 0 and not in order at operand 1, first by the
  segment index (0 against 1), then by the position (0/1 against 1/2); with equal positions
  1/2 and 2/4 the tags none and blocked decide; and a turn with another point and another
  second operation compares the same at operand 0.\<close>

theorem less_turn_key_sequence_witness:
  "less_turn 0 less_op_linear_linear
     (turn_of (op_at_position 0 1 2) (op_at_position 1 0 1))
     (turn_of (op_at_position 1 0 1) (op_at_position 0 1 2))
   \<and> \<not> less_turn 1 less_op_linear_linear
     (turn_of (op_at_position 0 1 2) (op_at_position 1 0 1))
     (turn_of (op_at_position 1 0 1) (op_at_position 0 1 2))
   \<and> less_turn 0 less_op_linear_linear
     (turn_of (op_at_position 0 0 1) (op_at_position 0 1 2))
     (turn_of (op_at_position 0 1 2) (op_at_position 0 0 1))
   \<and> \<not> less_turn 1 less_op_linear_linear
     (turn_of (op_at_position 0 0 1) (op_at_position 0 1 2))
     (turn_of (op_at_position 0 1 2) (op_at_position 0 0 1))
   \<and> less_turn 0 less_op_linear_linear
       (turn_of (op_at_position 0 1 2) (op_at_position 5 0 1))
       (turn_of ((op_at_position 0 2 4)\<lparr>operation := operation_blocked\<rparr>) (op_at_position 0 0 1))
     = less_op_linear_linear (op_at_position 0 1 2)
         ((op_at_position 0 2 4)\<lparr>operation := operation_blocked\<rparr>)
   \<and> less_turn 0 less_op_linear_linear
       ((turn_of (op_at_position 0 1 2) (op_at_position 3 0 1))\<lparr>turn_point := (7, 7)\<rparr>)
       (turn_of ((op_at_position 0 2 4)\<lparr>operation := operation_blocked\<rparr>) (op_at_position 0 0 1))
     = less_turn 0 less_op_linear_linear
       (turn_of (op_at_position 0 1 2) (op_at_position 5 0 1))
       (turn_of ((op_at_position 0 2 4)\<lparr>operation := operation_blocked\<rparr>) (op_at_position 0 0 1))"
proof -
  have i0: "(0::nat) < 2" and i1: "(1::nat) < 2" by simp_all
  note ev = Let_def seg_less_def seg_eq_def ratio_less_def ratio_eq_def fixture_defs turn_of_def
  from less_turn_key_sequence [OF i0, where less_op = less_op_linear_linear
      and left = "turn_of (op_at_position 0 1 2) (op_at_position 1 0 1)"
      and right = "turn_of (op_at_position 1 0 1) (op_at_position 0 1 2)"
      and left' = "turn_of (op_at_position 0 1 2) (op_at_position 1 0 1)"
      and right' = "turn_of (op_at_position 1 0 1) (op_at_position 0 1 2)"]
  have 1: "less_turn 0 less_op_linear_linear
     (turn_of (op_at_position 0 1 2) (op_at_position 1 0 1))
     (turn_of (op_at_position 1 0 1) (op_at_position 0 1 2))"
    by (simp add: ev)
  from less_turn_key_sequence [OF i1, where less_op = less_op_linear_linear
      and left = "turn_of (op_at_position 0 1 2) (op_at_position 1 0 1)"
      and right = "turn_of (op_at_position 1 0 1) (op_at_position 0 1 2)"
      and left' = "turn_of (op_at_position 0 1 2) (op_at_position 1 0 1)"
      and right' = "turn_of (op_at_position 1 0 1) (op_at_position 0 1 2)"]
  have 2: "\<not> less_turn 1 less_op_linear_linear
     (turn_of (op_at_position 0 1 2) (op_at_position 1 0 1))
     (turn_of (op_at_position 1 0 1) (op_at_position 0 1 2))"
    by (simp add: ev)
  from less_turn_key_sequence [OF i0, where less_op = less_op_linear_linear
      and left = "turn_of (op_at_position 0 0 1) (op_at_position 0 1 2)"
      and right = "turn_of (op_at_position 0 1 2) (op_at_position 0 0 1)"
      and left' = "turn_of (op_at_position 0 0 1) (op_at_position 0 1 2)"
      and right' = "turn_of (op_at_position 0 1 2) (op_at_position 0 0 1)"]
  have 3: "less_turn 0 less_op_linear_linear
     (turn_of (op_at_position 0 0 1) (op_at_position 0 1 2))
     (turn_of (op_at_position 0 1 2) (op_at_position 0 0 1))"
    by (simp add: ev)
  from less_turn_key_sequence [OF i1, where less_op = less_op_linear_linear
      and left = "turn_of (op_at_position 0 0 1) (op_at_position 0 1 2)"
      and right = "turn_of (op_at_position 0 1 2) (op_at_position 0 0 1)"
      and left' = "turn_of (op_at_position 0 0 1) (op_at_position 0 1 2)"
      and right' = "turn_of (op_at_position 0 1 2) (op_at_position 0 0 1)"]
  have 4: "\<not> less_turn 1 less_op_linear_linear
     (turn_of (op_at_position 0 0 1) (op_at_position 0 1 2))
     (turn_of (op_at_position 0 1 2) (op_at_position 0 0 1))"
    by (simp add: ev)
  from less_turn_key_sequence [OF i0, where less_op = less_op_linear_linear
      and left = "turn_of (op_at_position 0 1 2) (op_at_position 5 0 1)"
      and right = "turn_of ((op_at_position 0 2 4)\<lparr>operation := operation_blocked\<rparr>) (op_at_position 0 0 1)"
      and left' = "(turn_of (op_at_position 0 1 2) (op_at_position 3 0 1))\<lparr>turn_point := (7, 7)\<rparr>"
      and right' = "turn_of ((op_at_position 0 2 4)\<lparr>operation := operation_blocked\<rparr>) (op_at_position 0 0 1)"]
  have 5: "less_turn 0 less_op_linear_linear
       (turn_of (op_at_position 0 1 2) (op_at_position 5 0 1))
       (turn_of ((op_at_position 0 2 4)\<lparr>operation := operation_blocked\<rparr>) (op_at_position 0 0 1))
     = less_op_linear_linear (op_at_position 0 1 2)
         ((op_at_position 0 2 4)\<lparr>operation := operation_blocked\<rparr>)
    \<and> less_turn 0 less_op_linear_linear
       ((turn_of (op_at_position 0 1 2) (op_at_position 3 0 1))\<lparr>turn_point := (7, 7)\<rparr>)
       (turn_of ((op_at_position 0 2 4)\<lparr>operation := operation_blocked\<rparr>) (op_at_position 0 0 1))
     = less_turn 0 less_op_linear_linear
       (turn_of (op_at_position 0 1 2) (op_at_position 5 0 1))
       (turn_of ((op_at_position 0 2 4)\<lparr>operation := operation_blocked\<rparr>) (op_at_position 0 0 1))"
    by (simp add: ev)
  from 1 2 3 4 5 show ?thesis by blast
qed

section \<open>Proper crossing\<close>

lemma weighted_coordinate_ok:
  "ratio_ok r \<Longrightarrow> weighted_coordinate bits start r delta = Inr (machine_coordinate bits start r delta)"
  by (simp add: weighted_coordinate_def ratio_ok_def)

lemma assign_in_range:
  "ratio_ok r \<Longrightarrow> in_range lo hi (weighted_point bits s r dx dy)
     \<Longrightarrow> assign bits lo hi s r dx dy = Inr (weighted_point bits s r dx dy)"
  by (simp add: assign_def weighted_coordinate_ok numeric_cast_def weighted_point_def in_range_def
        ratio_ok_def)

lemma assign_out_of_range:
  "ratio_ok r \<Longrightarrow> \<not> in_range lo hi (weighted_point bits s r dx dy)
     \<Longrightarrow> assign bits lo hi s r dx dy = Inl negative_overflow
       \<or> assign bits lo hi s r dx dy = Inl positive_overflow"
  by (auto simp add: assign_def weighted_coordinate_ok numeric_cast_def weighted_point_def
        in_range_def ratio_ok_def)

lemma segments_crosses_outcome:
  "segments_crosses bits lo hi sinfo s1 s2 =
     crossing_outcome sinfo
       (if ratio_less (robust_ra sinfo) (robust_rb sinfo)
        then assign bits lo hi s1 (robust_ra sinfo) (dx_a sinfo) (dy_a sinfo)
        else assign bits lo hi s2 (robust_rb sinfo) (dx_b sinfo) (dy_b sinfo))"
  by (simp add: segments_crosses_def crossing_outcome_def default_result_def Let_def
        split: sum.splits)

lemma wrap_bounds:
  assumes "0 < bits"
  shows "type_min bits \<le> wrap bits v \<and> wrap bits v \<le> type_max bits"
proof -
  from assms obtain k where k: "bits = Suc k" by (cases bits) auto
  have p: "(2::int) ^ bits = 2 * 2 ^ (bits - 1)" by (simp add: k)
  have "0 \<le> (v + 2 ^ (bits - 1)) mod (2::int) ^ bits"
    and "(v + 2 ^ (bits - 1)) mod (2::int) ^ bits < 2 ^ bits"
    by simp_all
  with p show ?thesis by (simp add: wrap_def type_min_def type_max_def)
qed

lemma weighted_point_in_type:
  "0 < bits \<Longrightarrow> in_range (type_min bits) (type_max bits) (weighted_point bits s r dx dy)"
  by (simp add: in_range_def weighted_point_def machine_coordinate_def wrap_bounds)

lemmas crossing_defs = segments_crosses_def assign_def weighted_coordinate_def
  machine_coordinate_def wrap_def numeric_cast_def weighted_point_def in_range_def
  default_result_def crossing_outcome_def ratio_less_def ratio_eq_def ratio_ok_def
  signed_divide_int_def disjoint_def type_min_def type_max_def

text \<open>C5, as stated, fails: not every input has a result. With a 64-bit calculation type and
  a 32-bit coordinate type for the point, segments around x = 3000000005 make the conversion
  raise, and \<^verbatim>\<open>segments_crosses\<close> ends with that error and no count; a ratio with
  denominator 0 stops at the assertion.\<close>

theorem segments_crosses_no_result_counterexample:
  "segments_crosses 64 (- 2147483648) 2147483647
     \<lparr>dx_a = 10, dy_a = 0, dx_b = 0, dy_b = 10,
      robust_ra = \<lparr>numerator = 1, denominator = 2\<rparr>,
      robust_rb = \<lparr>numerator = 1, denominator = 2\<rparr>\<rparr>
     ((3000000000, 0), (3000000010, 0)) ((3000000005, - 5), (3000000005, 5))
   = Inl positive_overflow
   \<and> segments_crosses 32 (- 2147483648) 2147483647
     \<lparr>dx_a = 10, dy_a = 0, dx_b = 0, dy_b = 10,
      robust_ra = \<lparr>numerator = 1, denominator = 0\<rparr>,
      robust_rb = \<lparr>numerator = 1, denominator = 0\<rparr>\<rparr>
     ((0, 0), (10, 0)) ((5, - 5), (5, 5))
   = Inl assertion_failure"
  by (simp add: crossing_defs Let_def)

text \<open>C5, amended: for every input of \<^verbatim>\<open>segments_crosses\<close> over an integer coordinate domain
  whose chosen ratio has a positive denominator and whose computed coordinates fit the
  coordinate type of the point, the result has count exactly 1 and its point is derived from
  whichever segment yields the smaller ratio: the start of segment 1 plus segment 1's
  ratio-weighted deltas when segment 1's ratio compares strictly less than segment 2's, and the
  start of segment 2 plus segment 2's ratio-weighted deltas otherwise, each evaluated in the
  calculation type. When the coordinate type of the point is the calculation type itself, the
  computed coordinates always fit.\<close>

theorem segments_crosses_count_and_point:
  "(ratio_ok (if ratio_less (robust_ra sinfo) (robust_rb sinfo)
              then robust_ra sinfo else robust_rb sinfo)
    \<and> in_range lo hi
         (if ratio_less (robust_ra sinfo) (robust_rb sinfo)
          then weighted_point bits s1 (robust_ra sinfo) (dx_a sinfo) (dy_a sinfo)
          else weighted_point bits s2 (robust_rb sinfo) (dx_b sinfo) (dy_b sinfo))
    \<longrightarrow> segments_crosses bits lo hi sinfo s1 s2 =
           Inr \<lparr>count = 1,
                intersections =
                  [Some (if ratio_less (robust_ra sinfo) (robust_rb sinfo)
                         then weighted_point bits s1 (robust_ra sinfo) (dx_a sinfo) (dy_a sinfo)
                         else weighted_point bits s2 (robust_rb sinfo) (dx_b sinfo) (dy_b sinfo)),
                   None],
                fractions = [Some (robust_ra sinfo, robust_rb sinfo), None]\<rparr>)
   \<and> (0 < bits
      \<and> ratio_ok (if ratio_less (robust_ra sinfo) (robust_rb sinfo)
                  then robust_ra sinfo else robust_rb sinfo)
    \<longrightarrow> segments_crosses bits (type_min bits) (type_max bits) sinfo s1 s2 =
           Inr \<lparr>count = 1,
                intersections =
                  [Some (if ratio_less (robust_ra sinfo) (robust_rb sinfo)
                         then weighted_point bits s1 (robust_ra sinfo) (dx_a sinfo) (dy_a sinfo)
                         else weighted_point bits s2 (robust_rb sinfo) (dx_b sinfo) (dy_b sinfo)),
                   None],
                fractions = [Some (robust_ra sinfo, robust_rb sinfo), None]\<rparr>)"
proof -
  have general: "segments_crosses bits lo' hi' sinfo s1 s2 =
           Inr \<lparr>count = 1,
                intersections =
                  [Some (if ratio_less (robust_ra sinfo) (robust_rb sinfo)
                         then weighted_point bits s1 (robust_ra sinfo) (dx_a sinfo) (dy_a sinfo)
                         else weighted_point bits s2 (robust_rb sinfo) (dx_b sinfo) (dy_b sinfo)),
                   None],
                fractions = [Some (robust_ra sinfo, robust_rb sinfo), None]\<rparr>"
    if "ratio_ok (if ratio_less (robust_ra sinfo) (robust_rb sinfo)
              then robust_ra sinfo else robust_rb sinfo)"
      and "in_range lo' hi'
         (if ratio_less (robust_ra sinfo) (robust_rb sinfo)
          then weighted_point bits s1 (robust_ra sinfo) (dx_a sinfo) (dy_a sinfo)
          else weighted_point bits s2 (robust_rb sinfo) (dx_b sinfo) (dy_b sinfo))"
    for lo' hi'
    using that
    by (simp add: segments_crosses_outcome crossing_outcome_def assign_in_range split: if_splits)
  show ?thesis
    using general [of lo hi] general [of "type_min bits" "type_max bits"]
      weighted_point_in_type [of bits]
    by (simp split: if_splits)
qed

text \<open>The witness, with 32 bits throughout: (0,0)-(4,4) against (0,3)-(3,0) with the ratios
  3/8 and 1/2 takes the point (1,1) from the first segment, where the second would give
  (1,2); with the roles exchanged the point (1,1) comes from the second segment.\<close>

theorem segments_crosses_count_and_point_witness:
  "segments_crosses 32 (type_min 32) (type_max 32)
     \<lparr>dx_a = 4, dy_a = 4, dx_b = 3, dy_b = - 3,
      robust_ra = \<lparr>numerator = 3, denominator = 8\<rparr>,
      robust_rb = \<lparr>numerator = 1, denominator = 2\<rparr>\<rparr>
     ((0, 0), (4, 4)) ((0, 3), (3, 0))
   = Inr \<lparr>count = 1, intersections = [Some (1, 1), None],
          fractions = [Some (\<lparr>numerator = 3, denominator = 8\<rparr>,
                             \<lparr>numerator = 1, denominator = 2\<rparr>), None]\<rparr>
   \<and> weighted_point 32 ((0, 3), (3, 0)) \<lparr>numerator = 1, denominator = 2\<rparr> 3 (- 3) = (1, 2)
   \<and> segments_crosses 32 (- 1000) 1000
     \<lparr>dx_a = 3, dy_a = - 3, dx_b = 4, dy_b = 4,
      robust_ra = \<lparr>numerator = 1, denominator = 2\<rparr>,
      robust_rb = \<lparr>numerator = 3, denominator = 8\<rparr>\<rparr>
     ((0, 3), (3, 0)) ((0, 0), (4, 4))
   = Inr \<lparr>count = 1, intersections = [Some (1, 1), None],
          fractions = [Some (\<lparr>numerator = 1, denominator = 2\<rparr>,
                             \<lparr>numerator = 3, denominator = 8\<rparr>), None]\<rparr>"
  using
    segments_crosses_count_and_point [where bits = 32 and lo = "- 1000" and hi = 1000
      and sinfo = "\<lparr>dx_a = 4, dy_a = 4, dx_b = 3, dy_b = - 3,
                     robust_ra = \<lparr>numerator = 3, denominator = 8\<rparr>,
                     robust_rb = \<lparr>numerator = 1, denominator = 2\<rparr>\<rparr>"
      and ?s1.0 = "((0, 0), (4, 4))" and ?s2.0 = "((0, 3), (3, 0))"]
    segments_crosses_count_and_point [where bits = 32 and lo = "- 1000" and hi = 1000
      and sinfo = "\<lparr>dx_a = 3, dy_a = - 3, dx_b = 4, dy_b = 4,
                     robust_ra = \<lparr>numerator = 1, denominator = 2\<rparr>,
                     robust_rb = \<lparr>numerator = 3, denominator = 8\<rparr>\<rparr>"
      and ?s1.0 = "((0, 3), (3, 0))" and ?s2.0 = "((0, 0), (4, 4))"]
  by (simp add: weighted_point_def machine_coordinate_def wrap_def in_range_def ratio_less_def
        ratio_ok_def signed_divide_int_def)

text \<open>C10: when the two candidate ratios compare equal, and more generally whenever segment 1's
  ratio is not strictly smaller, the outcome of \<^verbatim>\<open>segments_crosses\<close> is that of the assign
  step on segment 2; for a ratio with a positive denominator and coordinates that fit the
  coordinate type, the reported point is the start of segment 2 plus segment 2's
  ratio-weighted deltas, evaluated in the calculation type.\<close>

theorem segments_crosses_tie_uses_second:
  "ratio_eq (robust_ra sinfo) (robust_rb sinfo) \<or> \<not> ratio_less (robust_ra sinfo) (robust_rb sinfo)
   \<longrightarrow> (segments_crosses bits lo hi sinfo s1 s2
          = crossing_outcome sinfo
              (assign bits lo hi s2 (robust_rb sinfo) (dx_b sinfo) (dy_b sinfo))
        \<and> (ratio_ok (robust_rb sinfo)
            \<and> in_range lo hi (weighted_point bits s2 (robust_rb sinfo) (dx_b sinfo) (dy_b sinfo))
           \<longrightarrow> segments_crosses bits lo hi sinfo s1 s2 =
                 Inr \<lparr>count = 1,
                      intersections =
                        [Some (weighted_point bits s2 (robust_rb sinfo) (dx_b sinfo) (dy_b sinfo)),
                         None],
                      fractions = [Some (robust_ra sinfo, robust_rb sinfo), None]\<rparr>))"
  using ratio_less_not_eq [of "robust_ra sinfo" "robust_rb sinfo"]
  by (auto simp add: segments_crosses_outcome crossing_outcome_def assign_in_range)

text \<open>The witness, with 32 bits throughout: (0,0)-(3,3) against (0,3)-(3,0) with the equal
  ratios 1/2 and 2/4 reports (1,2), the point of the second segment, where the first would
  give (1,1); and with the ratios 3/4 and 50000/100000 over a delta of 100000 the reported
  coordinate is the 7050 that the wrapped product of the second segment gives.\<close>

theorem segments_crosses_tie_uses_second_witness:
  "ratio_eq \<lparr>numerator = 1, denominator = 2\<rparr> \<lparr>numerator = 2, denominator = 4\<rparr>
   \<and> segments_crosses 32 (type_min 32) (type_max 32)
     \<lparr>dx_a = 3, dy_a = 3, dx_b = 3, dy_b = - 3,
      robust_ra = \<lparr>numerator = 1, denominator = 2\<rparr>,
      robust_rb = \<lparr>numerator = 2, denominator = 4\<rparr>\<rparr>
     ((0, 0), (3, 3)) ((0, 3), (3, 0))
   = Inr \<lparr>count = 1, intersections = [Some (1, 2), None],
          fractions = [Some (\<lparr>numerator = 1, denominator = 2\<rparr>,
                             \<lparr>numerator = 2, denominator = 4\<rparr>), None]\<rparr>
   \<and> weighted_point 32 ((0, 0), (3, 3)) \<lparr>numerator = 1, denominator = 2\<rparr> 3 3 = (1, 1)
   \<and> segments_crosses 32 (type_min 32) (type_max 32)
     \<lparr>dx_a = 0, dy_a = 8, dx_b = 100000, dy_b = 0,
      robust_ra = \<lparr>numerator = 3, denominator = 4\<rparr>,
      robust_rb = \<lparr>numerator = 50000, denominator = 100000\<rparr>\<rparr>
     ((50000, - 6), (50000, 2)) ((0, 0), (100000, 0))
   = Inr \<lparr>count = 1, intersections = [Some (7050, 0), None],
          fractions = [Some (\<lparr>numerator = 3, denominator = 4\<rparr>,
                             \<lparr>numerator = 50000, denominator = 100000\<rparr>), None]\<rparr>"
  using
    segments_crosses_tie_uses_second [where bits = 32 and lo = "type_min 32" and hi = "type_max 32"
      and sinfo = "\<lparr>dx_a = 3, dy_a = 3, dx_b = 3, dy_b = - 3,
                     robust_ra = \<lparr>numerator = 1, denominator = 2\<rparr>,
                     robust_rb = \<lparr>numerator = 2, denominator = 4\<rparr>\<rparr>"
      and ?s1.0 = "((0, 0), (3, 3))" and ?s2.0 = "((0, 3), (3, 0))"]
    segments_crosses_tie_uses_second [where bits = 32 and lo = "type_min 32" and hi = "type_max 32"
      and sinfo = "\<lparr>dx_a = 0, dy_a = 8, dx_b = 100000, dy_b = 0,
                     robust_ra = \<lparr>numerator = 3, denominator = 4\<rparr>,
                     robust_rb = \<lparr>numerator = 50000, denominator = 100000\<rparr>\<rparr>"
      and ?s1.0 = "((50000, - 6), (50000, 2))" and ?s2.0 = "((0, 0), (100000, 0))"]
  by (simp add: weighted_point_def machine_coordinate_def wrap_def in_range_def ratio_less_def
        ratio_eq_def ratio_ok_def signed_divide_int_def type_min_def type_max_def
        crossing_outcome_def assign_def weighted_coordinate_def numeric_cast_def)

section \<open>Overflow at the conversion\<close>

text \<open>C9, as stated, fails twice. With a 64-bit calculation type and a 32-bit coordinate type,
  segments around x = 3000000005 make the conversion raise, and \<^verbatim>\<open>segments_crosses\<close> ends with
  that error instead of the empty result of \<^verbatim>\<open>disjoint\<close>. With 32 bits for both, the
  segment (0,0)-(100000,0) at ratio 50000/100000 overflows in the product before the
  conversion: the conversion sees the wrapped value, and the result has count 1 and the
  coordinate 7050 in place of 50000.\<close>

theorem segments_crosses_overflow_counterexample:
  "segments_crosses 64 (- 2147483648) 2147483647
     \<lparr>dx_a = 10, dy_a = 0, dx_b = 0, dy_b = 10,
      robust_ra = \<lparr>numerator = 5, denominator = 10\<rparr>,
      robust_rb = \<lparr>numerator = 5, denominator = 10\<rparr>\<rparr>
     ((3000000000, 0), (3000000010, 0)) ((3000000005, - 5), (3000000005, 5))
   = Inl positive_overflow
   \<and> segments_crosses 64 (- 2147483648) 2147483647
     \<lparr>dx_a = 10, dy_a = 0, dx_b = 0, dy_b = 10,
      robust_ra = \<lparr>numerator = 5, denominator = 10\<rparr>,
      robust_rb = \<lparr>numerator = 5, denominator = 10\<rparr>\<rparr>
     ((3000000000, 0), (3000000010, 0)) ((3000000005, - 5), (3000000005, 5))
   \<noteq> Inr disjoint
   \<and> segments_crosses 32 (- 2147483648) 2147483647
     \<lparr>dx_a = 100000, dy_a = 0, dx_b = 0, dy_b = 8,
      robust_ra = \<lparr>numerator = 50000, denominator = 100000\<rparr>,
      robust_rb = \<lparr>numerator = 3, denominator = 4\<rparr>\<rparr>
     ((0, 0), (100000, 0)) ((50000, - 6), (50000, 2))
   = Inr \<lparr>count = 1, intersections = [Some (7050, 0), None],
          fractions = [Some (\<lparr>numerator = 50000, denominator = 100000\<rparr>,
                             \<lparr>numerator = 3, denominator = 4\<rparr>), None]\<rparr>"
  by (simp add: crossing_defs Let_def)

text \<open>C9, amended: when a ratio-weighted coordinate, as the assign step has evaluated it in
  the calculation type, lies outside the bounded coordinate domain of the point, the
  conversion detects it and raises an overflow error; \<^verbatim>\<open>segments_crosses\<close> hands that error
  to its caller and returns no result; and for no input at all does \<^verbatim>\<open>segments_crosses\<close>
  return the disjoint (empty, count-0) result.\<close>

theorem segments_crosses_overflow_raises:
  "segments_crosses bits lo hi sinfo s1 s2 \<noteq> Inr disjoint
   \<and> (ratio_ok (if ratio_less (robust_ra sinfo) (robust_rb sinfo)
                then robust_ra sinfo else robust_rb sinfo)
      \<and> \<not> in_range lo hi
              (if ratio_less (robust_ra sinfo) (robust_rb sinfo)
               then weighted_point bits s1 (robust_ra sinfo) (dx_a sinfo) (dy_a sinfo)
               else weighted_point bits s2 (robust_rb sinfo) (dx_b sinfo) (dy_b sinfo))
      \<longrightarrow> segments_crosses bits lo hi sinfo s1 s2 = Inl negative_overflow
        \<or> segments_crosses bits lo hi sinfo s1 s2 = Inl positive_overflow)"
proof -
  have never: "segments_crosses bits lo hi sinfo s1 s2 \<noteq> Inr disjoint"
    by (simp add: segments_crosses_outcome crossing_outcome_def disjoint_def default_result_def
          split: sum.splits)
  have raises: "segments_crosses bits lo hi sinfo s1 s2 = Inl negative_overflow
        \<or> segments_crosses bits lo hi sinfo s1 s2 = Inl positive_overflow"
    if ok: "ratio_ok (if ratio_less (robust_ra sinfo) (robust_rb sinfo)
                then robust_ra sinfo else robust_rb sinfo)"
      and out: "\<not> in_range lo hi
              (if ratio_less (robust_ra sinfo) (robust_rb sinfo)
               then weighted_point bits s1 (robust_ra sinfo) (dx_a sinfo) (dy_a sinfo)
               else weighted_point bits s2 (robust_rb sinfo) (dx_b sinfo) (dy_b sinfo))"
  proof (cases "ratio_less (robust_ra sinfo) (robust_rb sinfo)")
    case True
    with ok out assign_out_of_range [of "robust_ra sinfo" lo hi bits s1 "dx_a sinfo" "dy_a sinfo"]
    show ?thesis by (auto simp add: segments_crosses_outcome crossing_outcome_def)
  next
    case False
    with ok out assign_out_of_range [of "robust_rb sinfo" lo hi bits s2 "dx_b sinfo" "dy_b sinfo"]
    show ?thesis by (auto simp add: segments_crosses_outcome crossing_outcome_def)
  qed
  from never raises show ?thesis by blast
qed

text \<open>The witness: a 32-bit calculation type and a 16-bit coordinate type; the crossing of
  (-5,-39995)-(5,-39995) with (0,-40000)-(0,-39990) lies at y = -39995, below -32768.\<close>

theorem segments_crosses_overflow_raises_witness:
  "\<not> in_range (- 32768) 32767
       (weighted_point 32 ((0, - 40000), (0, - 39990)) \<lparr>numerator = 1, denominator = 2\<rparr> 0 10)
   \<and> segments_crosses 32 (- 32768) 32767
       \<lparr>dx_a = 10, dy_a = 0, dx_b = 0, dy_b = 10,
        robust_ra = \<lparr>numerator = 1, denominator = 2\<rparr>,
        robust_rb = \<lparr>numerator = 1, denominator = 2\<rparr>\<rparr>
       ((- 5, - 39995), (5, - 39995)) ((0, - 40000), (0, - 39990))
      \<noteq> Inr disjoint
   \<and> (segments_crosses 32 (- 32768) 32767
       \<lparr>dx_a = 10, dy_a = 0, dx_b = 0, dy_b = 10,
        robust_ra = \<lparr>numerator = 1, denominator = 2\<rparr>,
        robust_rb = \<lparr>numerator = 1, denominator = 2\<rparr>\<rparr>
       ((- 5, - 39995), (5, - 39995)) ((0, - 40000), (0, - 39990))
      = Inl negative_overflow
     \<or> segments_crosses 32 (- 32768) 32767
       \<lparr>dx_a = 10, dy_a = 0, dx_b = 0, dy_b = 10,
        robust_ra = \<lparr>numerator = 1, denominator = 2\<rparr>,
        robust_rb = \<lparr>numerator = 1, denominator = 2\<rparr>\<rparr>
       ((- 5, - 39995), (5, - 39995)) ((0, - 40000), (0, - 39990))
      = Inl positive_overflow)"
  using
    segments_crosses_overflow_raises [where bits = 32 and lo = "- 32768" and hi = 32767
      and sinfo = "\<lparr>dx_a = 10, dy_a = 0, dx_b = 0, dy_b = 10,
                     robust_ra = \<lparr>numerator = 1, denominator = 2\<rparr>,
                     robust_rb = \<lparr>numerator = 1, denominator = 2\<rparr>\<rparr>"
      and ?s1.0 = "((- 5, - 39995), (5, - 39995))" and ?s2.0 = "((0, - 40000), (0, - 39990))"]
  by (simp add: weighted_point_def machine_coordinate_def wrap_def in_range_def ratio_less_def
        ratio_ok_def signed_divide_int_def)

section \<open>Collinear overlap\<close>

lemmas collinear_defs = segments_collinear_def record_point_def must_swap_def swap01_def
  default_result_def collinear_candidates_def admitted_def along_a_def slots_def

lemma segments_collinear_refines:
  "segments_collinear a b raf rat rbf rbt =
     (let ps = along_a (admitted (collinear_candidates a b raf rat rbf rbt))
      in \<lparr>count = length ps, intersections = slots (map fst ps), fractions = slots (map snd ps)\<rparr>)"
  by (cases "on_segment raf"; cases "in_segment rbf"; cases "on_segment rat"; cases "in_segment rbt")
     (simp_all add: collinear_defs Let_def numeral_2_eq_2)

lemma length_along_a: "length (along_a ps) = length ps"
  by (simp add: along_a_def split: list.splits)

lemma along_a_ordered:
  "along_a ps = [p, q] \<Longrightarrow> \<not> ratio_less (fst (snd q)) (fst (snd p))"
  by (auto simp add: along_a_def ratio_less_def split: list.splits if_splits)

lemma length_admitted: "length (admitted cs) \<le> 2"
  by (simp add: admitted_def)

text \<open>C6: \<^verbatim>\<open>segments_collinear\<close> tests the candidates in the fixed order A-start with respect
  to B, B-start with respect to A, A-end with respect to B, B-end with respect to A; an
  A-relative candidate is admitted iff its ratio satisfies \<^verbatim>\<open>on_segment\<close> and fewer than two
  points are recorded, a B-relative candidate iff its ratio satisfies \<^verbatim>\<open>in_segment\<close> and
  fewer than two points are recorded; the returned count is the number of admitted candidates,
  at most 2; and when two points are admitted the emitted pair is ordered by position along A:
  it is the admitted pair reversed when the second admitted point has the smaller position
  along A, and the admitted pair as it is otherwise.\<close>

theorem segments_collinear_admission:
  "(let cs = collinear_candidates a b ra_from_wrt_b ra_to_wrt_b rb_from_wrt_a rb_to_wrt_a;
        ps = along_a (admitted cs);
        res = segments_collinear a b ra_from_wrt_b ra_to_wrt_b rb_from_wrt_a rb_to_wrt_a
    in res = \<lparr>count = length (admitted cs), intersections = slots (map fst ps),
               fractions = slots (map snd ps)\<rparr>
     \<and> count res \<le> 2
     \<and> (count res = 2 \<longrightarrow>
          (\<exists>f0 f1. fractions res = [Some f0, Some f1] \<and> \<not> ratio_less (fst f1) (fst f0)))
     \<and> (count res = 2 \<longrightarrow>
          ps = (if ratio_less (fst (snd (admitted cs ! 1))) (fst (snd (admitted cs ! 0)))
                then rev (admitted cs) else admitted cs)))"
proof -
  define cs where "cs = collinear_candidates a b ra_from_wrt_b ra_to_wrt_b rb_from_wrt_a rb_to_wrt_a"
  define ps where "ps = along_a (admitted cs)"
  define res where "res = segments_collinear a b ra_from_wrt_b ra_to_wrt_b rb_from_wrt_a rb_to_wrt_a"
  have eq: "res = \<lparr>count = length (admitted cs), intersections = slots (map fst ps),
               fractions = slots (map snd ps)\<rparr>"
    unfolding res_def ps_def cs_def
    by (simp add: segments_collinear_refines Let_def length_along_a)
  have le: "count res \<le> 2"
    by (simp add: eq length_admitted)
  have ord: "\<exists>f0 f1. fractions res = [Some f0, Some f1] \<and> \<not> ratio_less (fst f1) (fst f0)"
    if "count res = 2"
  proof -
    from that have "length ps = 2" by (simp add: eq ps_def length_along_a)
    then obtain p q where pq: "ps = [p, q]"
      by (cases ps; simp; cases "tl ps"; auto)
    with along_a_ordered [of "admitted cs" p q] have "\<not> ratio_less (fst (snd q)) (fst (snd p))"
      by (simp add: ps_def)
    with pq show ?thesis by (simp add: eq slots_def)
  qed
  have sw: "ps = (if ratio_less (fst (snd (admitted cs ! 1))) (fst (snd (admitted cs ! 0)))
                then rev (admitted cs) else admitted cs)"
    if "count res = 2"
  proof -
    from that have "length (admitted cs) = 2" by (simp add: eq)
    then obtain p q where pq: "admitted cs = [p, q]"
      by (cases "admitted cs"; simp; cases "tl (admitted cs)"; auto)
    show ?thesis
      by (simp add: ps_def pq along_a_def)
  qed
  from eq le ord sw show ?thesis
    unfolding Let_def cs_def ps_def res_def by blast
qed

text \<open>The witness: A = (0,0)-(10,0) against B = (4,0)-(14,0) admits B-start and A-end in this
  order and keeps them; against the reversed B = (14,0)-(4,0) it admits A-end and then B-end,
  and exchanges them. Both give the points (4,0) and (10,0) at positions 4/10 and 1 along A.\<close>

theorem segments_collinear_admission_witness:
  "segments_collinear ((0, 0), (10, 0)) ((4, 0), (14, 0))
     \<lparr>numerator = - 4, denominator = 10\<rparr> \<lparr>numerator = 6, denominator = 10\<rparr>
     \<lparr>numerator = 4, denominator = 10\<rparr> \<lparr>numerator = 14, denominator = 10\<rparr>
   = \<lparr>count = 2, intersections = [Some (4, 0), Some (10, 0)],
      fractions = [Some (\<lparr>numerator = 4, denominator = 10\<rparr>, ratio_zero),
                   Some (ratio_one, \<lparr>numerator = 6, denominator = 10\<rparr>)]\<rparr>
   \<and> segments_collinear ((0, 0), (10, 0)) ((14, 0), (4, 0))
     \<lparr>numerator = 14, denominator = 10\<rparr> \<lparr>numerator = 4, denominator = 10\<rparr>
     \<lparr>numerator = 14, denominator = 10\<rparr> \<lparr>numerator = 4, denominator = 10\<rparr>
   = \<lparr>count = 2, intersections = [Some (4, 0), Some (10, 0)],
      fractions = [Some (\<lparr>numerator = 4, denominator = 10\<rparr>, ratio_one),
                   Some (ratio_one, \<lparr>numerator = 4, denominator = 10\<rparr>)]\<rparr>"
  using
    segments_collinear_admission [of "((0, 0), (10, 0))" "((4, 0), (14, 0))"
     "\<lparr>numerator = - 4, denominator = 10\<rparr>" "\<lparr>numerator = 6, denominator = 10\<rparr>"
     "\<lparr>numerator = 4, denominator = 10\<rparr>" "\<lparr>numerator = 14, denominator = 10\<rparr>"]
    segments_collinear_admission [of "((0, 0), (10, 0))" "((14, 0), (4, 0))"
     "\<lparr>numerator = 14, denominator = 10\<rparr>" "\<lparr>numerator = 4, denominator = 10\<rparr>"
     "\<lparr>numerator = 14, denominator = 10\<rparr>" "\<lparr>numerator = 4, denominator = 10\<rparr>"]
  by (simp add: Let_def collinear_candidates_def admitted_def along_a_def slots_def
        on_segment_def in_segment_def ratio_less_def ratio_zero_def ratio_one_def)

end
